theory Spec2Isabelle
  imports Main "HOL-Library.Sublist" "HOL-Library.AList"
begin

section \<open>Python values, strings and exceptions\<close>

text \<open>
  The server is \<^verbatim>\<open>custom-mcp-server/resilientdb_mcp/resilientdb_mcp.py\<close>.
  A Python \<^verbatim>\<open>str\<close> is modelled as a \<^typ>\<open>string\<close>; a character \<open>c\<close> stands for the
  code point \<open>of_char c\<close>, so the model covers the strings whose code points are below
  256 (ASCII and Latin-1). The character tables below (\<^verbatim>\<open>isdigit\<close>, \<^verbatim>\<open>isspace\<close>,
  \<^verbatim>\<open>lower\<close>) are CPython's on that range.
\<close>

abbreviation nl :: char where
  "nl \<equiv> CHR 0x0A"

abbreviation sq :: char where
  "sq \<equiv> CHR 0x27"

definition isdecimal_char :: "char \<Rightarrow> bool" where
  "isdecimal_char c = (48 \<le> (of_char c :: nat) \<and> (of_char c :: nat) \<le> 57)"

text \<open>\<^verbatim>\<open>str.isdigit\<close> accepts the decimal digits and the superscript digits
  U+00B2, U+00B3 and U+00B9.\<close>

definition isdigit_char :: "char \<Rightarrow> bool" where
  "isdigit_char c =
     (isdecimal_char c \<or> (of_char c :: nat) = 178 \<or> (of_char c :: nat) = 179
        \<or> (of_char c :: nat) = 185)"

definition isdigit :: "string \<Rightarrow> bool" where
  "isdigit s = (s \<noteq> [] \<and> list_all isdigit_char s)"

definition isspace_char :: "char \<Rightarrow> bool" where
  "isspace_char c =
     ((9 \<le> (of_char c :: nat) \<and> (of_char c :: nat) \<le> 13)
      \<or> (28 \<le> (of_char c :: nat) \<and> (of_char c :: nat) \<le> 32)
      \<or> (of_char c :: nat) = 133 \<or> (of_char c :: nat) = 160)"

definition strip :: "string \<Rightarrow> string" where
  "strip s = rev (dropWhile isspace_char (rev (dropWhile isspace_char s)))"

definition lower_char :: "char \<Rightarrow> char" where
  "lower_char c =
     (if (65 \<le> (of_char c :: nat) \<and> (of_char c :: nat) \<le> 90)
         \<or> (192 \<le> (of_char c :: nat) \<and> (of_char c :: nat) \<le> 222
              \<and> (of_char c :: nat) \<noteq> 215)
      then char_of ((of_char c :: nat) + 32) else c)"

definition lower :: "string \<Rightarrow> string" where
  "lower s = map lower_char s"

text \<open>\<^verbatim>\<open>s.split('\n')\<close>: never empty, the empty string gives one empty line.\<close>

fun split_nl :: "string \<Rightarrow> string list" where
  "split_nl [] = [[]]"
| "split_nl (c # cs) =
     (if c = nl then [] # split_nl cs
      else (case split_nl cs of [] \<Rightarrow> [[c]] | l # ls \<Rightarrow> (c # l) # ls))"

text \<open>\<^verbatim>\<open>sep.join(xs)\<close>.\<close>

fun join :: "string \<Rightarrow> string list \<Rightarrow> string" where
  "join sep [] = []"
| "join sep [x] = x"
| "join sep (x # y # ys) = x @ sep @ join sep (y # ys)"

text \<open>\<^verbatim>\<open>xs[-n:]\<close> for a positive \<open>n\<close>: the last \<open>n\<close> elements, all of them when there
  are fewer.\<close>

definition last_n :: "nat \<Rightarrow> 'a list \<Rightarrow> 'a list" where
  "last_n n xs = drop (length xs - n) xs"

text \<open>\<^verbatim>\<open>str(n)\<close> of an integer.\<close>

function show_nat :: "nat \<Rightarrow> string" where
  "show_nat n =
     (if n < 10 then [char_of (48 + n)]
      else show_nat (n div 10) @ [char_of (48 + n mod 10)])"
  by pat_completeness auto
termination
  by (relation "measure id") auto

declare show_nat.simps [simp del]

definition show_int :: "int \<Rightarrow> string" where
  "show_int i = (if i < 0 then CHR ''-'' # show_nat (nat (- i)) else show_nat (nat i))"

text \<open>\<^verbatim>\<open>repr\<close> of a string without quotes, backslashes or control characters.\<close>

definition quoted :: "string \<Rightarrow> string" where
  "quoted s = sq # s @ [sq]"

datatype exkind =
  KeyError | FileNotFoundError | TimeoutExpired | ValueError | TypeError
  | AttributeError | OSError | OtherException

text \<open>An exception: its class and \<^verbatim>\<open>str(e)\<close>. Every class here derives from
  \<^verbatim>\<open>Exception\<close>; only \<open>FileNotFoundError\<close> and \<open>TimeoutExpired\<close> are told apart
  by an \<^verbatim>\<open>except\<close> clause of the source.\<close>

datatype exn = Exn exkind string

fun message :: "exn \<Rightarrow> string" where
  "message (Exn k m) = m"

fun kind :: "exn \<Rightarrow> exkind" where
  "kind (Exn k m) = k"

text \<open>The values \<^verbatim>\<open>yaml.safe_load\<close> and \<^verbatim>\<open>response.json()\<close> produce; dictionaries have
  string keys and keep their insertion order.\<close>

datatype pyval =
  PNone | PBool bool | PInt int | PStr string | PList "pyval list"
  | PDict "(string \<times> pyval) list"

fun type_name :: "pyval \<Rightarrow> string" where
  "type_name PNone = ''NoneType''"
| "type_name (PBool b) = ''bool''"
| "type_name (PInt i) = ''int''"
| "type_name (PStr s) = ''str''"
| "type_name (PList xs) = ''list''"
| "type_name (PDict d) = ''dict''"

text \<open>\<^verbatim>\<open>int(s)\<close> on the strings the source passes to it, those that pass
  \<^verbatim>\<open>isdigit\<close>: the decimal value when every character is a decimal digit, and
  \<open>ValueError\<close> otherwise. (CPython's configurable limit on the length of a decimal
  literal is not modelled.)\<close>

definition digit_value :: "char \<Rightarrow> int" where
  "digit_value c = int (of_char c) - 48"

definition py_int :: "string \<Rightarrow> exn + int" where
  "py_int s =
     (if s \<noteq> [] \<and> list_all isdecimal_char s
      then Inr (foldl (\<lambda>a c. 10 * a + digit_value c) 0 s)
      else Inl (Exn ValueError (''invalid literal for int() with base 10: '' @ quoted s)))"

section \<open>The file system\<close>

text \<open>A path is the list of its components below the root; the file system is a tree.
  Permissions are not modelled: an operation fails only for the shape of the tree.\<close>

type_synonym path = "string list"

datatype node = File string | Dir "(string \<times> node) list"

definition path_str :: "path \<Rightarrow> string" where
  "path_str p = (if p = [] then ''/'' else concat (map (\<lambda>c. CHR ''/'' # c) p))"

fun lookup :: "node \<Rightarrow> path \<Rightarrow> node option" where
  "lookup n [] = Some n"
| "lookup (File t) (c # cs) = None"
| "lookup (Dir es) (c # cs) =
     (case map_of es c of None \<Rightarrow> None | Some n \<Rightarrow> lookup n cs)"

definition exists_path :: "node \<Rightarrow> path \<Rightarrow> bool" where
  "exists_path root p = (lookup root p \<noteq> None)"

datatype oserr = ENOENT | EEXIST | ENOTDIR | EISDIR

fun os_exn :: "oserr \<Rightarrow> path \<Rightarrow> exn" where
  "os_exn ENOENT p =
     Exn FileNotFoundError (''[Errno 2] No such file or directory: '' @ quoted (path_str p))"
| "os_exn EEXIST p = Exn OSError (''[Errno 17] File exists: '' @ quoted (path_str p))"
| "os_exn ENOTDIR p = Exn OSError (''[Errno 20] Not a directory: '' @ quoted (path_str p))"
| "os_exn EISDIR p = Exn OSError (''[Errno 21] Is a directory: '' @ quoted (path_str p))"

fun fresh_dirs :: "path \<Rightarrow> node" where
  "fresh_dirs [] = Dir []"
| "fresh_dirs (c # cs) = Dir [(c, fresh_dirs cs)]"

text \<open>\<^verbatim>\<open>Path.mkdir(parents=True, exist_ok=True)\<close>: an existing directory is left as it
  is, missing directories are created, a file on the way is an error.\<close>

fun mkdir_parents :: "node \<Rightarrow> path \<Rightarrow> oserr + node" where
  "mkdir_parents (Dir es) [] = Inr (Dir es)"
| "mkdir_parents (File t) [] = Inl EEXIST"
| "mkdir_parents (File t) (c # cs) = Inl ENOTDIR"
| "mkdir_parents (Dir es) (c # cs) =
     (case map_of es c of
        None \<Rightarrow> Inr (Dir (es @ [(c, fresh_dirs cs)]))
      | Some n \<Rightarrow>
          (case mkdir_parents n cs of
             Inl e \<Rightarrow> Inl e
           | Inr n' \<Rightarrow> Inr (Dir (AList.update c n' es))))"

fun remove :: "node \<Rightarrow> path \<Rightarrow> node" where
  "remove n [] = n"
| "remove (File t) (c # cs) = File t"
| "remove (Dir es) [c] = Dir (AList.delete c es)"
| "remove (Dir es) (c # d # cs) =
     (case map_of es c of
        None \<Rightarrow> Dir es
      | Some n \<Rightarrow> Dir (AList.update c (remove n (d # cs)) es))"

text \<open>\<^verbatim>\<open>shutil.rmtree(p)\<close>.\<close>

definition rmtree :: "node \<Rightarrow> path \<Rightarrow> oserr + node" where
  "rmtree root p =
     (case lookup root p of
        None \<Rightarrow> Inl ENOENT
      | Some (File t) \<Rightarrow> Inl ENOTDIR
      | Some (Dir es) \<Rightarrow> Inr (remove root p))"

text \<open>Reading a whole file, \<^verbatim>\<open>open(p, 'r')\<close>.\<close>

definition read_file :: "node \<Rightarrow> path \<Rightarrow> oserr + string" where
  "read_file root p =
     (case lookup root p of
        None \<Rightarrow> Inl ENOENT
      | Some (Dir es) \<Rightarrow> Inl EISDIR
      | Some (File t) \<Rightarrow> Inr t)"

fun put :: "node \<Rightarrow> path \<Rightarrow> node \<Rightarrow> node option" where
  "put n [] m = None"
| "put (File t) (c # cs) m = None"
| "put (Dir es) [c] m = Some (Dir (AList.update c m es))"
| "put (Dir es) (c # d # cs) m =
     (case map_of es c of
        None \<Rightarrow> None
      | Some n \<Rightarrow>
          (case put n (d # cs) m of
             None \<Rightarrow> None
           | Some n' \<Rightarrow> Some (Dir (AList.update c n' es))))"

text \<open>Replacing a file's content, \<^verbatim>\<open>open(p, 'w')\<close> and a write.\<close>

definition write_file :: "node \<Rightarrow> path \<Rightarrow> string \<Rightarrow> oserr + node" where
  "write_file root p t =
     (case lookup root p of
        Some (Dir es) \<Rightarrow> Inl EISDIR
      | _ \<Rightarrow> (case put root p (File t) of None \<Rightarrow> Inl ENOENT | Some root' \<Rightarrow> Inr root'))"

section \<open>The environment: processes, HTTP, libraries\<close>

text \<open>A call of \<^verbatim>\<open>subprocess.run\<close>: the argument vector, \<^verbatim>\<open>cwd\<close> and
  \<^verbatim>\<open>timeout\<close> (seconds) as the source passes them. Every call of the source captures
  the output.\<close>

record command =
  argv :: "string list"
  cwd :: "string option"
  timeout :: "nat option"

text \<open>What the environment does with a command: it exits after some seconds with a
  return code, stdout and stderr; its program is not found; it cannot be started for
  another reason; or it never exits.\<close>

datatype proc_result =
  Exited nat int string string | NotFound string | SpawnError string | Hangs

datatype request = Post string pyval | Get string

record response =
  status :: int
  body :: string
  json :: "string + pyval"

datatype http_result = HttpFails string | HttpOk response

text \<open>Everything outside the program is a parameter: the home directory, the search
  path (\<^verbatim>\<open>shutil.which\<close>), what a process does to the file system and returns, what
  an HTTP request returns, and the YAML and JSON libraries. \<open>yaml_load\<close> returns
  \<open>Inl\<close> of the message when PyYAML raises.\<close>

record env =
  home :: path
  which :: "string \<Rightarrow> bool"
  proc :: "command \<Rightarrow> node \<Rightarrow> proc_result \<times> node"
  http :: "request \<Rightarrow> http_result"
  yaml_load :: "string \<Rightarrow> string + pyval"
  yaml_dump :: "pyval \<Rightarrow> string"
  json_dumps :: "pyval \<Rightarrow> string"

datatype effect =
  Mkdir path | Rmtree path | Spawn command | Chmod path nat | ReadFile path
  | WriteFile path string | Http request

text \<open>The state: \<^verbatim>\<open>self.initialized\<close>, the file system, and the trace of the
  operations performed on the outside world, oldest first.\<close>

record world =
  initialized :: bool
  fs :: node
  trace :: "effect list"

text \<open>How a call ends: it returns, it raises, or it never returns.\<close>

datatype 'a outcome = Return 'a | Raise exn | Block

definition emit :: "effect \<Rightarrow> world \<Rightarrow> world" where
  "emit e w = w\<lparr>trace := trace w @ [e]\<rparr>"

text \<open>\<^verbatim>\<open>try: x = op; body(x) except Exception as e: handler(e)\<close>, for an \<open>op\<close>
  whose body cannot raise.\<close>

definition try_catch ::
  "'a outcome \<times> world \<Rightarrow> ('a \<Rightarrow> world \<Rightarrow> 'b outcome \<times> world)
     \<Rightarrow> (exn \<Rightarrow> world \<Rightarrow> 'b outcome \<times> world) \<Rightarrow> 'b outcome \<times> world" where
  "try_catch r ok handler =
     (case r of
        (Return x, w) \<Rightarrow> ok x w
      | (Raise e, w) \<Rightarrow> handler e w
      | (Block, w) \<Rightarrow> (Block, w))"

record completed =
  returncode :: int
  stdout :: string
  stderr :: string

text \<open>\<^verbatim>\<open>subprocess.run(cmd, capture_output=True, ...)\<close>. A program that is not
  found raises \<open>FileNotFoundError\<close>; with a timeout, a process still running when it
  elapses is killed and \<open>TimeoutExpired\<close> is raised; with none, a process that never
  exits blocks the caller for ever.\<close>

definition subprocess_run :: "env \<Rightarrow> command \<Rightarrow> world \<Rightarrow> completed outcome \<times> world" where
  "subprocess_run e c w =
     (case proc e c (fs w) of
        (NotFound m, root) \<Rightarrow> (Raise (Exn FileNotFoundError m), emit (Spawn c) w)
      | (SpawnError m, root) \<Rightarrow> (Raise (Exn OtherException m), emit (Spawn c) w)
      | (Hangs, root) \<Rightarrow>
          (case timeout c of
             None \<Rightarrow> (Block, emit (Spawn c) (w\<lparr>fs := root\<rparr>))
           | Some t \<Rightarrow>
               (Raise (Exn TimeoutExpired ''timed out''), emit (Spawn c) (w\<lparr>fs := root\<rparr>)))
      | (Exited d rc out err, root) \<Rightarrow>
          (if (case timeout c of None \<Rightarrow> False | Some t \<Rightarrow> t < d)
           then (Raise (Exn TimeoutExpired ''timed out''), emit (Spawn c) (w\<lparr>fs := root\<rparr>))
           else (Return \<lparr>returncode = rc, stdout = out, stderr = err\<rparr>,
                 emit (Spawn c) (w\<lparr>fs := root\<rparr>))))"

section \<open>Configuration\<close>

definition REPO_URL :: string where
  "REPO_URL = ''https://github.com/apache/incubator-resilientdb-ansible.git''"

definition WORK_DIR :: "env \<Rightarrow> path" where
  "WORK_DIR e = home e @ [''.resilientdb-mcp'']"

definition ANSIBLE_DIR :: "env \<Rightarrow> path" where
  "ANSIBLE_DIR e = WORK_DIR e @ [''incubator-resilientdb-ansible'']"

definition INVENTORY_FILE :: "env \<Rightarrow> path" where
  "INVENTORY_FILE e = ANSIBLE_DIR e @ [''inventories'', ''production'', ''hosts'']"

definition PLAYBOOK_FILE :: "env \<Rightarrow> path" where
  "PLAYBOOK_FILE e = ANSIBLE_DIR e @ [''site.yml'']"

definition CROW_BASE_URL :: string where
  "CROW_BASE_URL = ''http://localhost:18000''"

definition GRAPHQL_URL :: string where
  "GRAPHQL_URL = ''http://localhost:8000/graphql''"

definition not_initialized_msg :: string where
  "not_initialized_msg =
     ''Environment not initialized. Please run 'initialize_environment' first''"

section \<open>The handlers\<close>

subsection \<open>\<^verbatim>\<open>_initialize_environment\<close>\<close>

definition key_files :: "env \<Rightarrow> (string \<times> path) list" where
  "key_files e =
     [(''Playbook'', PLAYBOOK_FILE e),
      (''Inventory'', INVENTORY_FILE e),
      (''Dockerfile'', ANSIBLE_DIR e @ [''dockerfile'']),
      (''Complete startup script'', ANSIBLE_DIR e @ [''complete-startup.sh''])]"

text \<open>The loop over \<^verbatim>\<open>key_files\<close>: one line for each, found or missing.\<close>

definition key_file_report :: "env \<Rightarrow> node \<Rightarrow> string list" where
  "key_file_report e root =
     map (\<lambda>(name, p).
            if exists_path root p then name @ '' found: '' @ path_str p
            else name @ '' missing: '' @ path_str p)
         (key_files e)"

definition clone_command :: "env \<Rightarrow> command" where
  "clone_command e =
     \<lparr>argv = [''git'', ''clone'', REPO_URL, path_str (ANSIBLE_DIR e)],
      cwd = None, timeout = None\<rparr>"

text \<open>The \<^verbatim>\<open>else\<close> branch after the directory has been dealt with: clone, and on
  success set the flag and report the key files. Only \<open>FileNotFoundError\<close> is
  caught.\<close>

definition clone_repository :: "env \<Rightarrow> world \<Rightarrow> string list \<Rightarrow> string outcome \<times> world" where
  "clone_repository e w results =
     (case subprocess_run e (clone_command e) w of
        (Return r, w1) \<Rightarrow>
          (if returncode r = 0
           then (Return (join [nl]
                   (results
                    @ [''Successfully cloned repository to '' @ path_str (ANSIBLE_DIR e)]
                    @ key_file_report e (fs w1))),
                 w1\<lparr>initialized := True\<rparr>)
           else (Return (join [nl]
                   (results @ [''Failed to clone repository: '' @ stderr r])), w1))
      | (Raise x, w1) \<Rightarrow>
          (if kind x = FileNotFoundError
           then (Return (join [nl]
                   (results
                    @ [''Error: git is not installed. Please run 'install_dependencies' first''])),
                 w1)
           else (Raise x, w1))
      | (Block, w1) \<Rightarrow> (Block, w1))"

definition initialize_environment :: "env \<Rightarrow> world \<Rightarrow> bool \<Rightarrow> string outcome \<times> world" where
  "initialize_environment e w force =
     (case mkdir_parents (fs w) (WORK_DIR e) of
        Inl err \<Rightarrow> (Raise (os_exn err (WORK_DIR e)), emit (Mkdir (WORK_DIR e)) w)
      | Inr root \<Rightarrow>
          (let w1 = emit (Mkdir (WORK_DIR e)) (w\<lparr>fs := root\<rparr>) in
           if exists_path (fs w1) (ANSIBLE_DIR e) \<and> \<not> force
           then (Return (join [nl]
                   ([''Repository already exists at '' @ path_str (ANSIBLE_DIR e)]
                    @ key_file_report e (fs w1))),
                 w1\<lparr>initialized := True\<rparr>)
           else if exists_path (fs w1) (ANSIBLE_DIR e) \<and> force
           then (case rmtree (fs w1) (ANSIBLE_DIR e) of
                   Inl err \<Rightarrow>
                     (Raise (os_exn err (ANSIBLE_DIR e)), emit (Rmtree (ANSIBLE_DIR e)) w1)
                 | Inr root' \<Rightarrow>
                     clone_repository e (emit (Rmtree (ANSIBLE_DIR e)) (w1\<lparr>fs := root'\<rparr>))
                       [''Removed existing repository''])
           else clone_repository e w1 []))"

subsection \<open>\<^verbatim>\<open>_check_dependencies\<close>\<close>

definition deps :: "(string \<times> string) list" where
  "deps =
     [(''git'', ''Version control for cloning repositories''),
      (''ansible'', ''Configuration management tool''),
      (''ansible-playbook'', ''Ansible playbook executor''),
      (''python3'', ''Python interpreter''),
      (''pip'', ''Python package manager''),
      (''docker'', ''Container runtime (optional)''),
      (''netstat'', ''Network diagnostics (optional)'')]"

definition version_command :: "string \<Rightarrow> command" where
  "version_command cmd =
     \<lparr>argv = (if cmd \<noteq> ''netstat'' then [cmd, ''--version''] else [''echo'', ''installed'']),
      cwd = None, timeout = Some 5\<rparr>"

text \<open>The loop over \<^verbatim>\<open>deps\<close>, carrying \<^verbatim>\<open>results\<close> and \<^verbatim>\<open>missing\<close>. The bare
  \<^verbatim>\<open>except\<close> turns every exception of the version probe into "installed".\<close>

fun check_deps_loop ::
  "env \<Rightarrow> (string \<times> string) list \<Rightarrow> string list \<Rightarrow> string list \<Rightarrow> world
     \<Rightarrow> (string list \<times> string list) outcome \<times> world" where
  "check_deps_loop e [] results missing w = (Return (results, missing), w)"
| "check_deps_loop e ((cmd, description) # rest) results missing w =
     (if which e cmd
      then (case subprocess_run e (version_command cmd) w of
              (Return r, w1) \<Rightarrow>
                check_deps_loop e rest
                  (results @ [cmd @ '': '' @ strip (hd (split_nl (stdout r)))]) missing w1
            | (Raise x, w1) \<Rightarrow>
                check_deps_loop e rest (results @ [cmd @ '': installed'']) missing w1
            | (Block, w1) \<Rightarrow> (Block, w1))
      else check_deps_loop e rest
             (results @ [cmd @ '': NOT FOUND - '' @ description])
             (if cmd \<in> set [''git'', ''ansible'', ''ansible-playbook'', ''python3'']
              then missing @ [cmd] else missing)
             w)"

definition check_dependencies :: "env \<Rightarrow> world \<Rightarrow> string outcome \<times> world" where
  "check_dependencies e w =
     (case check_deps_loop e deps [] [] w of
        (Return (results, missing), w1) \<Rightarrow>
          (if missing \<noteq> []
           then (Return (join [nl]
                   (results
                    @ [nl # ''Missing critical dependencies: '' @ join '', '' missing,
                       ''Run 'install_dependencies' to attempt automatic installation''])),
                 w1)
           else (Return (join [nl]
                   (results @ [nl # ''All critical dependencies are installed!''])), w1))
      | (Raise x, w1) \<Rightarrow> (Raise x, w1)
      | (Block, w1) \<Rightarrow> (Block, w1))"

subsection \<open>\<^verbatim>\<open>_install_dependencies\<close>\<close>

definition install_dependencies :: "env \<Rightarrow> world \<Rightarrow> bool \<Rightarrow> string outcome \<times> world" where
  "install_dependencies e w use_sudo = (Return [], w)"

subsection \<open>\<^verbatim>\<open>_run_playbook\<close>\<close>

definition playbook_command :: "env \<Rightarrow> string \<Rightarrow> string \<Rightarrow> bool \<Rightarrow> command" where
  "playbook_command e tags limit check =
     \<lparr>argv =
        [''ansible-playbook'', path_str (PLAYBOOK_FILE e),
         ''-i'', path_str (INVENTORY_FILE e), ''--tags'', tags]
        @ (if limit \<noteq> ''all'' then [''--limit'', limit] else [])
        @ (if check then [''--check''] else []),
      cwd = Some (path_str (ANSIBLE_DIR e)), timeout = None\<rparr>"

definition summary_header :: string where
  "summary_header = nl # ''=== DEPLOYMENT SUMMARY ===''"

text \<open>The loop over \<^verbatim>\<open>output_lines\<close>, carrying \<^verbatim>\<open>recap_started\<close> and
  \<^verbatim>\<open>summary\<close>.\<close>

fun recap_loop :: "bool \<Rightarrow> string list \<Rightarrow> string list \<Rightarrow> string list" where
  "recap_loop recap_started summary [] = summary"
| "recap_loop recap_started summary (line # rest) =
     (if sublist ''PLAY RECAP'' line
      then recap_loop True (summary @ [summary_header]) rest
      else if recap_started \<and> strip line \<noteq> []
      then recap_loop recap_started (summary @ [line]) rest
      else recap_loop recap_started summary rest)"

definition recap_summary :: "string \<Rightarrow> string list" where
  "recap_summary out = recap_loop False [] (split_nl out)"

definition playbook_result :: "completed \<Rightarrow> string" where
  "playbook_result r =
     (if returncode r = 0
      then ''Playbook executed successfully!'' @ [nl]
           @ join [nl] (last_n 10 (recap_summary (stdout r)))
      else ''Playbook failed:'' @ [nl]
           @ (if stderr r \<noteq> [] then last_n 500 (stderr r) else last_n 500 (stdout r))
           @ [nl] @ join [nl] (recap_summary (stdout r)))"

definition run_playbook ::
  "env \<Rightarrow> world \<Rightarrow> string \<Rightarrow> string \<Rightarrow> bool \<Rightarrow> string outcome \<times> world" where
  "run_playbook e w tags limit check =
     (if \<not> initialized w then (Return not_initialized_msg, w)
      else if \<not> exists_path (fs w) (PLAYBOOK_FILE e)
      then (Return (''Playbook not found at '' @ path_str (PLAYBOOK_FILE e)), w)
      else try_catch (subprocess_run e (playbook_command e tags limit check) w)
             (\<lambda>r w1. (Return (playbook_result r), w1))
             (\<lambda>x w1.
                if kind x = FileNotFoundError
                then (Return
                   ''Error: ansible-playbook not found. Please run 'install_dependencies' first'',
                   w1)
                else (Return (''Error running playbook: '' @ message x), w1)))"

subsection \<open>\<^verbatim>\<open>_quick_deploy\<close>\<close>

text \<open>\<^verbatim>\<open>os.chmod(p, mode)\<close>.\<close>

definition chmod :: "path \<Rightarrow> nat \<Rightarrow> world \<Rightarrow> unit outcome \<times> world" where
  "chmod p mode w =
     (if exists_path (fs w) p then (Return (), emit (Chmod p mode) w)
      else (Raise (os_exn ENOENT p), emit (Chmod p mode) w))"

definition startup_script :: "env \<Rightarrow> path" where
  "startup_script e = ANSIBLE_DIR e @ [''complete-startup.sh'']"

definition quick_deploy_command :: "env \<Rightarrow> command" where
  "quick_deploy_command e =
     \<lparr>argv = [''bash'', path_str (startup_script e)],
      cwd = Some (path_str (ANSIBLE_DIR e)), timeout = Some 300\<rparr>"

definition quick_deploy_handler :: "exn \<Rightarrow> world \<Rightarrow> string outcome \<times> world" where
  "quick_deploy_handler x w =
     (if kind x = TimeoutExpired
      then (Return ''Deployment timed out after 5 minutes. Services may still be starting.'', w)
      else (Return (''Error during quick deployment: '' @ message x), w))"

definition quick_deploy :: "env \<Rightarrow> world \<Rightarrow> string outcome \<times> world" where
  "quick_deploy e w =
     (if \<not> initialized w then (Return not_initialized_msg, w)
      else if \<not> exists_path (fs w) (startup_script e)
      then (Return (''Startup script not found at '' @ path_str (startup_script e)), w)
      else try_catch (chmod (startup_script e) 493 w)
             (\<lambda>u w1.
                try_catch (subprocess_run e (quick_deploy_command e) w1)
                  (\<lambda>r w2.
                     (let output = last_n 2000 (stdout r) in
                      if sublist ''All services started'' output
                      then (Return (''Quick deployment completed successfully!'' @ [nl] @ output),
                            w2)
                      else (Return (''Quick deployment output:'' @ [nl] @ output), w2)))
                  quick_deploy_handler)
             quick_deploy_handler)"

subsection \<open>\<^verbatim>\<open>_docker_build\<close> and \<^verbatim>\<open>_docker_run\<close>\<close>

definition docker_build_command :: "env \<Rightarrow> string \<Rightarrow> command" where
  "docker_build_command e tag =
     \<lparr>argv = [''docker'', ''build'', ''-t'', tag, path_str (ANSIBLE_DIR e)],
      cwd = None, timeout = None\<rparr>"

definition docker_build :: "env \<Rightarrow> world \<Rightarrow> string \<Rightarrow> string outcome \<times> world" where
  "docker_build e w tag =
     (if \<not> initialized w then (Return not_initialized_msg, w)
      else if \<not> exists_path (fs w) (ANSIBLE_DIR e @ [''dockerfile''])
      then (Return (''Dockerfile not found at '' @ path_str (ANSIBLE_DIR e @ [''dockerfile''])),
            w)
      else try_catch (subprocess_run e (docker_build_command e tag) w)
             (\<lambda>r w1.
                if returncode r = 0
                then (Return (''Docker image built successfully: '' @ tag), w1)
                else (Return (''Docker build failed:'' @ [nl] @ last_n 1000 (stderr r)), w1))
             (\<lambda>x w1.
                if kind x = FileNotFoundError
                then (Return ''Docker is not installed. Please install Docker first.'', w1)
                else (Return (''Error building Docker image: '' @ message x), w1)))"

definition docker_run_command :: "string \<Rightarrow> bool \<Rightarrow> command" where
  "docker_run_command tag detach =
     \<lparr>argv =
        [''docker'', ''run'', ''--privileged'',
         ''-v'', ''/sys/fs/cgroup:/sys/fs/cgroup:ro'',
         ''-v'', ''/tmp:/tmp'',
         ''-v'', ''/run:/run'',
         ''-p'', ''80:80'',
         ''-p'', ''18000:18000'',
         ''-p'', ''8000:8000'',
         ''--name'', ''resilientdb-container'']
        @ (if detach then [''-d''] else []) @ [tag],
      cwd = None, timeout = None\<rparr>"

definition docker_run :: "env \<Rightarrow> world \<Rightarrow> string \<Rightarrow> bool \<Rightarrow> string outcome \<times> world" where
  "docker_run e w tag detach =
     try_catch (subprocess_run e (docker_run_command tag detach) w)
       (\<lambda>r w1.
          if returncode r = 0
          then (Return (''Container started successfully: '' @ take 12 (strip (stdout r)) @ [nl]
                  @ ''Access services at:'' @ [nl]
                  @ ''- Nginx: http://localhost'' @ [nl]
                  @ ''- GraphQL: http://localhost:8000/graphql'' @ [nl]
                  @ ''- Crow API: http://localhost:18000''), w1)
          else if sublist ''already in use'' (stderr r)
          then (Return (''Container name already in use. Stop existing container first:'' @ [nl]
                  @ ''docker stop resilientdb-container && docker rm resilientdb-container''),
                w1)
          else (Return (''Failed to start container:'' @ [nl] @ last_n 500 (stderr r)), w1))
       (\<lambda>x w1.
          if kind x = FileNotFoundError
          then (Return ''Docker is not installed. Please install Docker first.'', w1)
          else (Return (''Error running container: '' @ message x), w1))"

subsection \<open>Service management\<close>

definition services :: "string list" where
  "services =
     [''nginx'', ''crow-http'', ''graphql'', ''resilientdb-client'',
      ''resilientdb-kv@1'', ''resilientdb-kv@2'', ''resilientdb-kv@3'', ''resilientdb-kv@4'']"

definition systemctl :: "string \<Rightarrow> string \<Rightarrow> command" where
  "systemctl verb service = \<lparr>argv = [''systemctl'', verb, service], cwd = None, timeout = None\<rparr>"

text \<open>The two status glyphs, U+2713 and U+2717, lie outside the code points of the
  model; they are written as their UTF-8 bytes and only ever copied to the result.\<close>

definition CHECK_MARK :: string where
  "CHECK_MARK = [CHR 0xE2, CHR 0x9C, CHR 0x93]"

definition BALLOT_X :: string where
  "BALLOT_X = [CHR 0xE2, CHR 0x9C, CHR 0x97]"

fun check_services_loop ::
  "env \<Rightarrow> string list \<Rightarrow> string list \<Rightarrow> world \<Rightarrow> string list outcome \<times> world" where
  "check_services_loop e [] status_info w = (Return status_info, w)"
| "check_services_loop e (service # rest) status_info w =
     (case subprocess_run e (systemctl ''is-active'' service) w of
        (Return r, w1) \<Rightarrow>
          check_services_loop e rest
            (status_info
             @ [(if strip (stdout r) = ''active'' then CHECK_MARK else BALLOT_X)
                @ '' '' @ service @ '': '' @ strip (stdout r)])
            w1
      | (Raise x, w1) \<Rightarrow>
          check_services_loop e rest (status_info @ [''? '' @ service @ '': error checking'']) w1
      | (Block, w1) \<Rightarrow> (Block, w1))"

definition check_services :: "env \<Rightarrow> world \<Rightarrow> string outcome \<times> world" where
  "check_services e w =
     try_catch (check_services_loop e services [] w)
       (\<lambda>status_info w1. (Return (''Service Status:'' @ [nl] @ join [nl] status_info), w1))
       (\<lambda>x w1. (Raise x, w1))"

fun restart_all_loop ::
  "env \<Rightarrow> string list \<Rightarrow> string list \<Rightarrow> world \<Rightarrow> string list outcome \<times> world" where
  "restart_all_loop e [] results w = (Return results, w)"
| "restart_all_loop e (svc # rest) results w =
     (case subprocess_run e (systemctl ''restart'' svc) w of
        (Return r, w1) \<Rightarrow> restart_all_loop e rest (results @ [''Restarted '' @ svc]) w1
      | (Raise x, w1) \<Rightarrow> restart_all_loop e rest (results @ [''Failed to restart '' @ svc]) w1
      | (Block, w1) \<Rightarrow> (Block, w1))"

definition restart_service :: "env \<Rightarrow> world \<Rightarrow> string \<Rightarrow> string outcome \<times> world" where
  "restart_service e w service =
     (if service = ''all''
      then try_catch (restart_all_loop e services [] w)
             (\<lambda>results w1. (Return (join [nl] results), w1))
             (\<lambda>x w1. (Raise x, w1))
      else try_catch (subprocess_run e (systemctl ''restart'' service) w)
             (\<lambda>r w1.
                if returncode r = 0
                then (Return (''Service '' @ service @ '' restarted successfully''), w1)
                else (Return (''Error restarting '' @ service @ '': '' @ stderr r), w1))
             (\<lambda>x w1. (Return (''Error restarting service: '' @ message x), w1)))"

definition view_logs_command :: "string \<Rightarrow> int \<Rightarrow> command" where
  "view_logs_command service lines =
     \<lparr>argv = [''journalctl'', ''-u'', service, ''-n'', show_int lines, ''--no-pager''],
      cwd = None, timeout = None\<rparr>"

definition view_logs :: "env \<Rightarrow> world \<Rightarrow> string \<Rightarrow> int \<Rightarrow> string outcome \<times> world" where
  "view_logs e w service lines =
     try_catch (subprocess_run e (view_logs_command service lines) w)
       (\<lambda>r w1.
          if returncode r = 0
          then (Return (''=== Last '' @ show_int lines @ '' lines of '' @ service @ '' logs ===''
                  @ [nl] @ stdout r), w1)
          else (Return (''Error fetching logs: '' @ stderr r), w1))
       (\<lambda>x w1. (Return (''Error viewing logs: '' @ message x), w1))"

subsection \<open>API interactions\<close>

text \<open>One request inside \<^verbatim>\<open>async with aiohttp.ClientSession()\<close>: a failure of the
  transport is an exception carrying its message.\<close>

definition http_call :: "env \<Rightarrow> request \<Rightarrow> world \<Rightarrow> response outcome \<times> world" where
  "http_call e req w =
     (case http e req of
        HttpFails m \<Rightarrow> (Raise (Exn OtherException m), emit (Http req) w)
      | HttpOk r \<Rightarrow> (Return r, emit (Http req) w))"

definition commit_transaction ::
  "env \<Rightarrow> world \<Rightarrow> string \<Rightarrow> string \<Rightarrow> string outcome \<times> world" where
  "commit_transaction e w transaction_id val =
     try_catch
       (http_call e
          (Post (CROW_BASE_URL @ ''/v1/transactions/commit'')
             (PDict [(''id'', PStr transaction_id), (''value'', PStr val)])) w)
       (\<lambda>r w1.
          (Return (''Transaction committed (status '' @ show_int (status r) @ ''):'' @ [nl]
             @ body r), w1))
       (\<lambda>x w1. (Return (''Error committing transaction: '' @ message x), w1))"

definition get_transaction :: "env \<Rightarrow> world \<Rightarrow> string \<Rightarrow> string outcome \<times> world" where
  "get_transaction e w transaction_id =
     try_catch
       (http_call e (Get (CROW_BASE_URL @ ''/v1/transactions/'' @ transaction_id)) w)
       (\<lambda>r w1.
          (Return (''Transaction data (status '' @ show_int (status r) @ ''):'' @ [nl]
             @ body r), w1))
       (\<lambda>x w1. (Return (''Error fetching transaction: '' @ message x), w1))"

definition graphql_query ::
  "env \<Rightarrow> world \<Rightarrow> string \<Rightarrow> pyval \<Rightarrow> string outcome \<times> world" where
  "graphql_query e w query variables =
     try_catch
       (http_call e
          (Post GRAPHQL_URL (PDict [(''query'', PStr query), (''variables'', variables)])) w)
       (\<lambda>r w1.
          (case json r of
             Inl m \<Rightarrow> (Return (''Error executing GraphQL query: '' @ m), w1)
           | Inr v \<Rightarrow> (Return (''GraphQL Response:'' @ [nl] @ json_dumps e v), w1)))
       (\<lambda>x w1. (Return (''Error executing GraphQL query: '' @ message x), w1))"

subsection \<open>Diagnostics\<close>

definition relevant_ports :: "string list" where
  "relevant_ports =
     [''80'', ''8000'', ''18000'', ''10001'', ''10002'', ''10003'', ''10004'', ''10005'']"

definition check_ports :: "env \<Rightarrow> world \<Rightarrow> string outcome \<times> world" where
  "check_ports e w =
     try_catch
       (subprocess_run e \<lparr>argv = [''netstat'', ''-tlnp''], cwd = None, timeout = None\<rparr> w)
       (\<lambda>r w1.
          (let filtered =
                 filter (\<lambda>line. list_ex (\<lambda>port. sublist (CHR '':'' # port) line) relevant_ports)
                   (split_nl (stdout r))
           in if filtered \<noteq> []
              then (Return (''Listening ports:'' @ [nl] @ join [nl] filtered), w1)
              else (Return ''No ResilientDB-related ports found listening'', w1)))
       (\<lambda>x w1.
          if kind x = FileNotFoundError
          then try_catch
                 (subprocess_run e \<lparr>argv = [''ss'', ''-tlnp''], cwd = None, timeout = None\<rparr> w1)
                 (\<lambda>r w2. (Return (''Listening sockets:'' @ [nl] @ stdout r), w2))
                 (\<lambda>y w2. (Return ''Neither netstat nor ss available for port checking'', w2))
          else (Return (''Error checking ports: '' @ message x), w1))"

definition config_file :: "env \<Rightarrow> path" where
  "config_file e = ANSIBLE_DIR e @ [''inventories'', ''production'', ''group_vars'', ''all.yml'']"

text \<open>\<^verbatim>\<open>with open(config_file, 'r') as f: config = yaml.safe_load(f)\<close>.\<close>

definition load_config :: "env \<Rightarrow> world \<Rightarrow> pyval outcome \<times> world" where
  "load_config e w =
     (case read_file (fs w) (config_file e) of
        Inl err \<Rightarrow> (Raise (os_exn err (config_file e)), emit (ReadFile (config_file e)) w)
      | Inr t \<Rightarrow>
          (case yaml_load e t of
             Inl m \<Rightarrow> (Raise (Exn OtherException m), emit (ReadFile (config_file e)) w)
           | Inr v \<Rightarrow> (Return v, emit (ReadFile (config_file e)) w)))"

definition always_included :: "string list" where
  "always_included = [''components'', ''bazel_version'', ''java_home_map'']"

definition relevant_keys :: "string \<Rightarrow> (string \<times> pyval) list \<Rightarrow> string list" where
  "relevant_keys component config =
     filter (\<lambda>key. sublist (lower component) (lower key) \<or> key \<in> set always_included)
       (map fst config)"

text \<open>\<^verbatim>\<open>{k: config[k] for k in relevant_keys if k in config}\<close>.\<close>

definition filtered_config :: "string \<Rightarrow> (string \<times> pyval) list \<Rightarrow> (string \<times> pyval) list" where
  "filtered_config component config =
     foldl (\<lambda>d k. case map_of config k of None \<Rightarrow> d | Some v \<Rightarrow> AList.update k v d) []
       (relevant_keys component config)"

definition view_config_handler :: "exn \<Rightarrow> world \<Rightarrow> string outcome \<times> world" where
  "view_config_handler x w = (Return (''Error reading configuration: '' @ message x), w)"

definition view_config :: "env \<Rightarrow> world \<Rightarrow> string \<Rightarrow> string outcome \<times> world" where
  "view_config e w component =
     (if \<not> initialized w then (Return not_initialized_msg, w)
      else if \<not> exists_path (fs w) (config_file e)
      then (Return (''Configuration file not found at '' @ path_str (config_file e)), w)
      else try_catch (load_config e w)
             (\<lambda>config w1.
                if component = ''all''
                then (Return (''Full configuration:'' @ [nl] @ yaml_dump e config), w1)
                else (case config of
                        PDict d \<Rightarrow>
                          (if filtered_config component d \<noteq> []
                           then (Return (''Configuration for '' @ component @ '':'' @ [nl]
                                   @ yaml_dump e (PDict (filtered_config component d))), w1)
                           else (Return (''No configuration found for component: '' @ component),
                                 w1))
                      | _ \<Rightarrow>
                          view_config_handler
                            (Exn AttributeError
                               (quoted (type_name config) @ '' object has no attribute ''
                                @ quoted ''keys''))
                            w1))
             view_config_handler)"

text \<open>What \<^verbatim>\<open>value\<close> is after the conversion: an \<^verbatim>\<open>int\<close>, a \<^verbatim>\<open>bool\<close> or the
  string itself.\<close>

datatype coerced = AsInt int | AsBool bool | AsStr string

fun to_pyval :: "coerced \<Rightarrow> pyval" where
  "to_pyval (AsInt i) = PInt i"
| "to_pyval (AsBool b) = PBool b"
| "to_pyval (AsStr s) = PStr s"

text \<open>\<^verbatim>\<open>f"{value}"\<close>.\<close>

fun format_value :: "coerced \<Rightarrow> string" where
  "format_value (AsInt i) = show_int i"
| "format_value (AsBool b) = (if b then ''True'' else ''False'')"
| "format_value (AsStr s) = s"

definition convert_value :: "string \<Rightarrow> exn + coerced" where
  "convert_value val =
     (if isdigit val
      then (case py_int val of Inl x \<Rightarrow> Inl x | Inr i \<Rightarrow> Inr (AsInt i))
      else if lower val \<in> set [''true'', ''false'']
      then Inr (AsBool (lower val = ''true''))
      else Inr (AsStr val))"

text \<open>\<^verbatim>\<open>config[key] = value\<close>: only a dictionary takes a string key.\<close>

definition set_item :: "pyval \<Rightarrow> string \<Rightarrow> pyval \<Rightarrow> exn + pyval" where
  "set_item config k v =
     (case config of
        PDict d \<Rightarrow> Inr (PDict (AList.update k v d))
      | PList xs \<Rightarrow> Inl (Exn TypeError ''list indices must be integers or slices, not str'')
      | _ \<Rightarrow>
          Inl (Exn TypeError
                 (quoted (type_name config) @ '' object does not support item assignment'')))"

text \<open>\<^verbatim>\<open>with open(config_file, 'w') as f: yaml.dump(config, f, ...)\<close>.\<close>

definition store_config :: "env \<Rightarrow> pyval \<Rightarrow> world \<Rightarrow> unit outcome \<times> world" where
  "store_config e config w =
     (case write_file (fs w) (config_file e) (yaml_dump e config) of
        Inl err \<Rightarrow>
          (Raise (os_exn err (config_file e)),
           emit (WriteFile (config_file e) (yaml_dump e config)) w)
      | Inr root \<Rightarrow>
          (Return (), emit (WriteFile (config_file e) (yaml_dump e config)) (w\<lparr>fs := root\<rparr>)))"

definition update_config_handler :: "exn \<Rightarrow> world \<Rightarrow> string outcome \<times> world" where
  "update_config_handler x w = (Return (''Error updating configuration: '' @ message x), w)"

definition update_config ::
  "env \<Rightarrow> world \<Rightarrow> string \<Rightarrow> string \<Rightarrow> string outcome \<times> world" where
  "update_config e w k val =
     (if \<not> initialized w then (Return not_initialized_msg, w)
      else try_catch (load_config e w)
             (\<lambda>config w1.
                case convert_value val of
                  Inl x \<Rightarrow> update_config_handler x w1
                | Inr v \<Rightarrow>
                    (case set_item config k (to_pyval v) of
                       Inl x \<Rightarrow> update_config_handler x w1
                     | Inr config' \<Rightarrow>
                         try_catch (store_config e config' w1)
                           (\<lambda>u w2.
                              (Return (''Updated '' @ k @ '' = '' @ format_value v
                                 @ '' in configuration''), w2))
                           update_config_handler))
             update_config_handler)"

section \<open>The catalog and the dispatcher\<close>

text \<open>A tool of \<^verbatim>\<open>list_tools\<close>: its name and the \<^verbatim>\<open>required\<close> list of its input
  schema.\<close>

record tool =
  name :: string
  required :: "string list"

definition list_tools :: "tool list" where
  "list_tools =
     [\<lparr>name = ''initialize_environment'', required = []\<rparr>,
      \<lparr>name = ''check_dependencies'', required = []\<rparr>,
      \<lparr>name = ''install_dependencies'', required = []\<rparr>,
      \<lparr>name = ''run_playbook'', required = []\<rparr>,
      \<lparr>name = ''quick_deploy'', required = []\<rparr>,
      \<lparr>name = ''docker_build'', required = []\<rparr>,
      \<lparr>name = ''docker_run'', required = []\<rparr>,
      \<lparr>name = ''check_services'', required = []\<rparr>,
      \<lparr>name = ''restart_service'', required = [''service'']\<rparr>,
      \<lparr>name = ''view_logs'', required = [''service'']\<rparr>,
      \<lparr>name = ''commit_transaction'', required = [''transaction_id'', ''value'']\<rparr>,
      \<lparr>name = ''get_transaction'', required = [''transaction_id'']\<rparr>,
      \<lparr>name = ''graphql_query'', required = [''query'']\<rparr>,
      \<lparr>name = ''check_ports'', required = []\<rparr>,
      \<lparr>name = ''view_config'', required = [''component'']\<rparr>,
      \<lparr>name = ''update_config'', required = [''key'', ''value'']\<rparr>]"

definition catalog :: "string list" where
  "catalog = map name list_tools"

text \<open>The \<^verbatim>\<open>arguments\<close> dictionary of a call. Every key of the catalog's schemas has
  one type, the one its schema declares; a key is absent (\<open>None\<close>) or holds a value of
  that type. Keys no schema declares are never read.\<close>

record arguments =
  arg_force :: "bool option"
  arg_use_sudo :: "bool option"
  arg_tags :: "string option"
  arg_limit :: "string option"
  arg_check :: "bool option"
  arg_tag :: "string option"
  arg_detach :: "bool option"
  arg_service :: "string option"
  arg_lines :: "int option"
  arg_transaction_id :: "string option"
  arg_value :: "string option"
  arg_query :: "string option"
  arg_variables :: "pyval option"
  arg_component :: "string option"
  arg_key :: "string option"

text \<open>\<^verbatim>\<open>arguments.get(key, default)\<close>.\<close>

definition get_default :: "'a option \<Rightarrow> 'a \<Rightarrow> 'a" where
  "get_default v d = (case v of None \<Rightarrow> d | Some x \<Rightarrow> x)"

text \<open>\<^verbatim>\<open>arguments[key]\<close>, then the rest of the call: a missing key raises
  \<open>KeyError\<close>, whose \<^verbatim>\<open>str\<close> is the quoted key.\<close>

definition subscript ::
  "'a option \<Rightarrow> string \<Rightarrow> world \<Rightarrow> ('a \<Rightarrow> 'b outcome \<times> world) \<Rightarrow> 'b outcome \<times> world" where
  "subscript v k w f =
     (case v of None \<Rightarrow> (Raise (Exn KeyError (quoted k)), w) | Some x \<Rightarrow> f x)"

datatype TextContent = TextContent string string

text \<open>The \<^verbatim>\<open>if\<close>/\<^verbatim>\<open>elif\<close> chain of \<^verbatim>\<open>call_tool\<close>, giving \<^verbatim>\<open>result\<close>.\<close>

definition dispatch :: "env \<Rightarrow> world \<Rightarrow> string \<Rightarrow> arguments \<Rightarrow> string outcome \<times> world" where
  "dispatch e w nm args =
     (if nm = ''initialize_environment''
      then initialize_environment e w (get_default (arg_force args) False)
      else if nm = ''check_dependencies'' then check_dependencies e w
      else if nm = ''install_dependencies''
      then install_dependencies e w (get_default (arg_use_sudo args) True)
      else if nm = ''run_playbook''
      then run_playbook e w (get_default (arg_tags args) ''all'')
             (get_default (arg_limit args) ''all'') (get_default (arg_check args) False)
      else if nm = ''quick_deploy'' then quick_deploy e w
      else if nm = ''docker_build''
      then docker_build e w (get_default (arg_tag args) ''resilientdb-ansible:latest'')
      else if nm = ''docker_run''
      then docker_run e w (get_default (arg_tag args) ''resilientdb-ansible:latest'')
             (get_default (arg_detach args) True)
      else if nm = ''check_services'' then check_services e w
      else if nm = ''restart_service''
      then subscript (arg_service args) ''service'' w (\<lambda>service. restart_service e w service)
      else if nm = ''view_logs''
      then subscript (arg_service args) ''service'' w
             (\<lambda>service. view_logs e w service (get_default (arg_lines args) 50))
      else if nm = ''commit_transaction''
      then subscript (arg_transaction_id args) ''transaction_id'' w
             (\<lambda>transaction_id.
                subscript (arg_value args) ''value'' w
                  (\<lambda>val. commit_transaction e w transaction_id val))
      else if nm = ''get_transaction''
      then subscript (arg_transaction_id args) ''transaction_id'' w
             (\<lambda>transaction_id. get_transaction e w transaction_id)
      else if nm = ''graphql_query''
      then subscript (arg_query args) ''query'' w
             (\<lambda>query. graphql_query e w query (get_default (arg_variables args) (PDict [])))
      else if nm = ''check_ports'' then check_ports e w
      else if nm = ''view_config''
      then subscript (arg_component args) ''component'' w
             (\<lambda>component. view_config e w component)
      else if nm = ''update_config''
      then subscript (arg_key args) ''key'' w
             (\<lambda>k. subscript (arg_value args) ''value'' w (\<lambda>val. update_config e w k val))
      else (Return (''Unknown tool: '' @ nm), w))"

text \<open>\<^verbatim>\<open>call_tool\<close>: the result wrapped as one text content. There is no
  \<^verbatim>\<open>try\<close> in it.\<close>

definition call_tool ::
  "env \<Rightarrow> world \<Rightarrow> string \<Rightarrow> arguments \<Rightarrow> TextContent list outcome \<times> world" where
  "call_tool e w nm args =
     (case dispatch e w nm args of
        (Return result, w1) \<Rightarrow> (Return [TextContent ''text'' result], w1)
      | (Raise x, w1) \<Rightarrow> (Raise x, w1)
      | (Block, w1) \<Rightarrow> (Block, w1))"

text \<open>Whether the dictionary holds a key.\<close>

definition present :: "arguments \<Rightarrow> string \<Rightarrow> bool" where
  "present args k =
     (if k = ''force'' then arg_force args \<noteq> None
      else if k = ''use_sudo'' then arg_use_sudo args \<noteq> None
      else if k = ''tags'' then arg_tags args \<noteq> None
      else if k = ''limit'' then arg_limit args \<noteq> None
      else if k = ''check'' then arg_check args \<noteq> None
      else if k = ''tag'' then arg_tag args \<noteq> None
      else if k = ''detach'' then arg_detach args \<noteq> None
      else if k = ''service'' then arg_service args \<noteq> None
      else if k = ''lines'' then arg_lines args \<noteq> None
      else if k = ''transaction_id'' then arg_transaction_id args \<noteq> None
      else if k = ''value'' then arg_value args \<noteq> None
      else if k = ''query'' then arg_query args \<noteq> None
      else if k = ''variables'' then arg_variables args \<noteq> None
      else if k = ''component'' then arg_component args \<noteq> None
      else if k = ''key'' then arg_key args \<noteq> None
      else False)"

definition required_of :: "string \<Rightarrow> string list" where
  "required_of nm = concat (map required (filter (\<lambda>t. name t = nm) list_tools))"

definition required_present :: "string \<Rightarrow> arguments \<Rightarrow> bool" where
  "required_present nm args = list_all (present args) (required_of nm)"

section \<open>A sample installation\<close>

text \<open>A concrete environment and state, on which the theorems below are instantiated:
  only \<^verbatim>\<open>git\<close> is on the search path, cloning fails, the playbook prints a recap,
  every other command hangs, and no HTTP service answers.\<close>

definition example_dump :: "pyval \<Rightarrow> string" where
  "example_dump v =
     (case v of PDict d \<Rightarrow> concat (map (\<lambda>(k, x). k @ '': ?'' @ [nl]) d) | _ \<Rightarrow> ''?'')"

definition example_proc :: "command \<Rightarrow> node \<Rightarrow> proc_result \<times> node" where
  "example_proc c root =
     (if argv c = [''git'', ''--version''] then (Exited 1 0 ''git version 2.43.0'' [], root)
      else if take 2 (argv c) = [''git'', ''clone'']
      then (Exited 2 128 [] ''fatal: unable to access'', root)
      else if take 1 (argv c) = [''ansible-playbook'']
      then (Exited 9 0
              (''PLAY RECAP ***'' @ [nl] @ ''host1 : ok=2'' @ [nl] @ [nl] @ ''host2 : ok=3'' @ [nl])
              [],
            root)
      else (Hangs, root))"

definition example_load :: "string \<Rightarrow> string + pyval" where
  "example_load t =
     (if t = ''crow_port: 18000''
      then Inr (PDict [(''crow_port'', PInt 18000), (''components'', PList []),
                       (''nginx_port'', PInt 80)])
      else Inl ''could not parse'')"

definition example_env :: env where
  "example_env =
     \<lparr>home = [''home'', ''op''],
      which = (\<lambda>cmd. cmd = ''git''),
      proc = example_proc,
      http = (\<lambda>r. HttpFails ''Cannot connect to host''),
      yaml_load = example_load,
      yaml_dump = example_dump,
      json_dumps = example_dump\<rparr>"

definition example_repo :: node where
  "example_repo =
     Dir [(''site.yml'', File ''- hosts: all''),
          (''inventories'',
           Dir [(''production'',
                 Dir [(''hosts'', File ''localhost''),
                      (''group_vars'', Dir [(''all.yml'', File ''crow_port: 18000'')])])])]"

definition example_fs :: node where
  "example_fs =
     Dir [(''home'',
           Dir [(''op'',
                 Dir [(''.resilientdb-mcp'',
                       Dir [(''incubator-resilientdb-ansible'', example_repo)])])])]"

definition no_args :: arguments where
  "no_args =
     \<lparr>arg_force = None, arg_use_sudo = None, arg_tags = None, arg_limit = None,
      arg_check = None, arg_tag = None, arg_detach = None, arg_service = None,
      arg_lines = None, arg_transaction_id = None, arg_value = None, arg_query = None,
      arg_variables = None, arg_component = None, arg_key = None\<rparr>"

definition example_world :: world where
  "example_world = \<lparr>initialized = True, fs = example_fs, trace = []\<rparr>"

definition fresh_world :: world where
  "fresh_world = \<lparr>initialized = False, fs = example_fs, trace = []\<rparr>"

section \<open>Reading the trace\<close>

text \<open>The \<^verbatim>\<open>timeout\<close> argument of every process started in a trace, in order.\<close>

fun timeouts_of :: "effect list \<Rightarrow> nat option list" where
  "timeouts_of [] = []"
| "timeouts_of (Spawn c # es) = timeout c # timeouts_of es"
| "timeouts_of (x # es) = timeouts_of es"

text \<open>The operations a call added: what the trace of the state after it holds beyond
  the trace of the state before.\<close>

definition performed :: "world \<Rightarrow> world \<Rightarrow> effect list" where
  "performed w w' = drop (length (trace w)) (trace w')"

text \<open>The state \<open>w'\<close> continues the trace of \<open>w\<close>, and every process started in
  between was given one of the timeouts \<open>ts\<close>.\<close>

definition adds :: "nat option list \<Rightarrow> world \<Rightarrow> world \<Rightarrow> bool" where
  "adds ts w w' =
     (take (length (trace w)) (trace w') = trace w
      \<and> list_all (\<lambda>t. t \<in> set ts) (timeouts_of (performed w w')))"

text \<open>The timeout \<^verbatim>\<open>call_tool\<close> passes to the processes of a tool.\<close>

definition tool_timeout :: "string \<Rightarrow> nat option" where
  "tool_timeout nm =
     (if nm = ''quick_deploy'' then Some 300
      else if nm = ''check_dependencies'' then Some 5
      else None)"

section \<open>Facts about the dispatcher\<close>

lemma dispatch_initialize_environment:
  "dispatch e w ''initialize_environment'' args
     = initialize_environment e w (get_default (arg_force args) False)"
  by (simp add: dispatch_def)

lemma dispatch_check_dependencies:
  "dispatch e w ''check_dependencies'' args = check_dependencies e w"
  by (simp add: dispatch_def)

lemma dispatch_install_dependencies:
  "dispatch e w ''install_dependencies'' args
     = install_dependencies e w (get_default (arg_use_sudo args) True)"
  by (simp add: dispatch_def)

lemma dispatch_run_playbook:
  "dispatch e w ''run_playbook'' args
     = run_playbook e w (get_default (arg_tags args) ''all'')
         (get_default (arg_limit args) ''all'') (get_default (arg_check args) False)"
  by (simp add: dispatch_def)

lemma dispatch_quick_deploy: "dispatch e w ''quick_deploy'' args = quick_deploy e w"
  by (simp add: dispatch_def)

lemma dispatch_docker_build:
  "dispatch e w ''docker_build'' args
     = docker_build e w (get_default (arg_tag args) ''resilientdb-ansible:latest'')"
  by (simp add: dispatch_def)

lemma dispatch_docker_run:
  "dispatch e w ''docker_run'' args
     = docker_run e w (get_default (arg_tag args) ''resilientdb-ansible:latest'')
         (get_default (arg_detach args) True)"
  by (simp add: dispatch_def)

lemma dispatch_check_services: "dispatch e w ''check_services'' args = check_services e w"
  by (simp add: dispatch_def)

lemma dispatch_restart_service:
  "dispatch e w ''restart_service'' args
     = subscript (arg_service args) ''service'' w (\<lambda>service. restart_service e w service)"
  by (simp add: dispatch_def)

lemma dispatch_view_logs:
  "dispatch e w ''view_logs'' args
     = subscript (arg_service args) ''service'' w
         (\<lambda>service. view_logs e w service (get_default (arg_lines args) 50))"
  by (simp add: dispatch_def)

lemma dispatch_commit_transaction:
  "dispatch e w ''commit_transaction'' args
     = subscript (arg_transaction_id args) ''transaction_id'' w
         (\<lambda>transaction_id.
            subscript (arg_value args) ''value'' w
              (\<lambda>val. commit_transaction e w transaction_id val))"
  by (simp add: dispatch_def)

lemma dispatch_get_transaction:
  "dispatch e w ''get_transaction'' args
     = subscript (arg_transaction_id args) ''transaction_id'' w
         (\<lambda>transaction_id. get_transaction e w transaction_id)"
  by (simp add: dispatch_def)

lemma dispatch_graphql_query:
  "dispatch e w ''graphql_query'' args
     = subscript (arg_query args) ''query'' w
         (\<lambda>query. graphql_query e w query (get_default (arg_variables args) (PDict [])))"
  by (simp add: dispatch_def)

lemma dispatch_check_ports: "dispatch e w ''check_ports'' args = check_ports e w"
  by (simp add: dispatch_def)

lemma dispatch_view_config:
  "dispatch e w ''view_config'' args
     = subscript (arg_component args) ''component'' w (\<lambda>component. view_config e w component)"
  by (simp add: dispatch_def)

lemma dispatch_update_config:
  "dispatch e w ''update_config'' args
     = subscript (arg_key args) ''key'' w
         (\<lambda>k. subscript (arg_value args) ''value'' w (\<lambda>val. update_config e w k val))"
  by (simp add: dispatch_def)

lemma catalog_names:
  "nm \<in> set catalog \<longleftrightarrow>
     nm = ''initialize_environment'' \<or> nm = ''check_dependencies''
     \<or> nm = ''install_dependencies'' \<or> nm = ''run_playbook'' \<or> nm = ''quick_deploy''
     \<or> nm = ''docker_build'' \<or> nm = ''docker_run'' \<or> nm = ''check_services''
     \<or> nm = ''restart_service'' \<or> nm = ''view_logs'' \<or> nm = ''commit_transaction''
     \<or> nm = ''get_transaction'' \<or> nm = ''graphql_query'' \<or> nm = ''check_ports''
     \<or> nm = ''view_config'' \<or> nm = ''update_config''"
  by (simp add: catalog_def list_tools_def)

lemma required_of_simps:
  "required_of ''initialize_environment'' = []"
  "required_of ''check_dependencies'' = []"
  "required_of ''install_dependencies'' = []"
  "required_of ''run_playbook'' = []"
  "required_of ''quick_deploy'' = []"
  "required_of ''docker_build'' = []"
  "required_of ''docker_run'' = []"
  "required_of ''check_services'' = []"
  "required_of ''restart_service'' = [''service'']"
  "required_of ''view_logs'' = [''service'']"
  "required_of ''commit_transaction'' = [''transaction_id'', ''value'']"
  "required_of ''get_transaction'' = [''transaction_id'']"
  "required_of ''graphql_query'' = [''query'']"
  "required_of ''check_ports'' = []"
  "required_of ''view_config'' = [''component'']"
  "required_of ''update_config'' = [''key'', ''value'']"
  by (simp_all add: required_of_def list_tools_def)

lemma present_simps:
  "present args ''service'' = (arg_service args \<noteq> None)"
  "present args ''transaction_id'' = (arg_transaction_id args \<noteq> None)"
  "present args ''value'' = (arg_value args \<noteq> None)"
  "present args ''query'' = (arg_query args \<noteq> None)"
  "present args ''component'' = (arg_component args \<noteq> None)"
  "present args ''key'' = (arg_key args \<noteq> None)"
  by (simp_all add: present_def)

section \<open>The lifecycle gate\<close>

lemma run_playbook_uninitialized:
  "\<not> initialized w \<Longrightarrow> run_playbook e w tags limit check = (Return not_initialized_msg, w)"
  unfolding run_playbook_def by simp

lemma quick_deploy_uninitialized:
  "\<not> initialized w \<Longrightarrow> quick_deploy e w = (Return not_initialized_msg, w)"
  unfolding quick_deploy_def by simp

lemma docker_build_uninitialized:
  "\<not> initialized w \<Longrightarrow> docker_build e w tag = (Return not_initialized_msg, w)"
  unfolding docker_build_def by simp

lemma view_config_uninitialized:
  "\<not> initialized w \<Longrightarrow> view_config e w component = (Return not_initialized_msg, w)"
  unfolding view_config_def by simp

lemma update_config_uninitialized:
  "\<not> initialized w \<Longrightarrow> update_config e w k val = (Return not_initialized_msg, w)"
  unfolding update_config_def by simp

lemma dispatch_run_playbook_uninitialized: "\<not> initialized w \<Longrightarrow> dispatch e w ''run_playbook'' args = (Return not_initialized_msg, w)"
  by (simp add: dispatch_run_playbook run_playbook_uninitialized)

lemma dispatch_quick_deploy_uninitialized: "\<not> initialized w \<Longrightarrow> dispatch e w ''quick_deploy'' args = (Return not_initialized_msg, w)"
  by (simp add: dispatch_quick_deploy quick_deploy_uninitialized)

lemma dispatch_docker_build_uninitialized: "\<not> initialized w \<Longrightarrow> dispatch e w ''docker_build'' args = (Return not_initialized_msg, w)"
  by (simp add: dispatch_docker_build docker_build_uninitialized)

lemma required_present_view_config: "required_present ''view_config'' args = (arg_component args \<noteq> None)"
  by (simp add: required_present_def required_of_simps present_simps)

lemma required_present_update_config: "required_present ''update_config'' args
    = (arg_key args \<noteq> None \<and> arg_value args \<noteq> None)"
  by (simp add: required_present_def required_of_simps present_simps)

lemma dispatch_view_config_uninitialized: "\<not> initialized w \<Longrightarrow> required_present ''view_config'' args \<Longrightarrow>
   dispatch e w ''view_config'' args = (Return not_initialized_msg, w)"
  by (auto simp add: required_present_view_config dispatch_view_config subscript_def view_config_uninitialized)

lemma dispatch_update_config_uninitialized: "\<not> initialized w \<Longrightarrow> required_present ''update_config'' args \<Longrightarrow>
   dispatch e w ''update_config'' args = (Return not_initialized_msg, w)"
  by (auto simp add: required_present_update_config dispatch_update_config subscript_def update_config_uninitialized)


lemma gated_dispatch_uninitialized:
  assumes "\<not> initialized w"
    and "nm = ''run_playbook'' \<or> nm = ''quick_deploy'' \<or> nm = ''docker_build''
         \<or> nm = ''view_config'' \<or> nm = ''update_config''"
    and "required_present nm args"
  shows "dispatch e w nm args = (Return not_initialized_msg, w)"
  using assms(2)
proof (elim disjE)
  assume "nm = ''run_playbook''"
  then show ?thesis using dispatch_run_playbook_uninitialized [OF assms(1)] by simp
next
  assume "nm = ''quick_deploy''"
  then show ?thesis using dispatch_quick_deploy_uninitialized [OF assms(1)] by simp
next
  assume "nm = ''docker_build''"
  then show ?thesis using dispatch_docker_build_uninitialized [OF assms(1)] by simp
next
  assume n: "nm = ''view_config''"
  show ?thesis using dispatch_view_config_uninitialized [OF assms(1)] assms(3) unfolding n by simp
next
  assume n: "nm = ''update_config''"
  show ?thesis using dispatch_update_config_uninitialized [OF assms(1)] assms(3) unfolding n by simp
qed

section \<open>Initialising an existing installation\<close>

lemma lookup_append:
  "lookup root (p @ q) = (case lookup root p of None \<Rightarrow> None | Some n \<Rightarrow> lookup n q)"
  by (induction root p rule: lookup.induct) (simp_all split: option.splits)

lemma mkdir_parents_existing:
  "lookup root p = Some (Dir es) \<Longrightarrow> mkdir_parents root p = Inr root"
  by (induction root p arbitrary: es rule: mkdir_parents.induct)
     (auto split: option.splits simp add: AList.update_triv)

lemma lookup_child_parent:
  assumes "lookup root (p @ [c]) = Some n"
  obtains es where "lookup root p = Some (Dir es)"
proof -
  from assms obtain m where m: "lookup root p = Some m" and l: "lookup m [c] = Some n"
    by (auto simp add: lookup_append split: option.splits)
  from l obtain es where "m = Dir es" by (cases m) simp_all
  with m that show ?thesis by simp
qed

lemma mkdir_work_dir_existing:
  assumes "exists_path root (ANSIBLE_DIR e)"
  shows "mkdir_parents root (WORK_DIR e) = Inr root"
proof -
  from assms obtain n where "lookup root (WORK_DIR e @ [''incubator-resilientdb-ansible'']) = Some n"
    by (auto simp add: exists_path_def ANSIBLE_DIR_def)
  then obtain es where "lookup root (WORK_DIR e) = Some (Dir es)"
    by (rule lookup_child_parent)
  then show ?thesis by (rule mkdir_parents_existing)
qed

lemma initialize_existing:
  assumes "exists_path (fs w) (ANSIBLE_DIR e)"
  shows "initialize_environment e w False
     = (Return (join [nl]
          ((''Repository already exists at '' @ path_str (ANSIBLE_DIR e))
           # key_file_report e (fs w))),
        (emit (Mkdir (WORK_DIR e)) w)\<lparr>initialized := True\<rparr>)"
  using assms
  by (simp add: initialize_environment_def mkdir_work_dir_existing [OF assms] emit_def Let_def)

text \<open>Forced re-initialisation when the clone fails: the directory has been removed,
  git has been started once, the reason is returned, and the flag is the one found.\<close>

lemma mkdir_work_dir_of_dir:
  assumes "lookup root (ANSIBLE_DIR e) = Some n"
  shows "mkdir_parents root (WORK_DIR e) = Inr root"
  using assms by (intro mkdir_work_dir_existing) (simp add: exists_path_def)

lemma clone_timeout: "timeout (clone_command e) = None"
  by (simp add: clone_command_def)

lemma force_reclone_nonzero:
  assumes d: "lookup (fs w) (ANSIBLE_DIR e) = Some (Dir es)"
    and p: "proc e (clone_command e) (remove (fs w) (ANSIBLE_DIR e))
              = (Exited secs rc out err, root)"
    and rc: "rc \<noteq> 0"
  shows "initialize_environment e w True
     = (Return (join [nl] [''Removed existing repository'',
                           ''Failed to clone repository: '' @ err]),
        w\<lparr>fs := root,
          trace := trace w @ [Mkdir (WORK_DIR e), Rmtree (ANSIBLE_DIR e),
                              Spawn (clone_command e)]\<rparr>)"
proof -
  show ?thesis
    using rc
    by (simp add: initialize_environment_def mkdir_work_dir_of_dir [OF d] exists_path_def d
        rmtree_def Let_def clone_repository_def subprocess_run_def p clone_timeout emit_def)
qed

lemma force_reclone_git_missing:
  assumes d: "lookup (fs w) (ANSIBLE_DIR e) = Some (Dir es)"
    and p: "proc e (clone_command e) (remove (fs w) (ANSIBLE_DIR e)) = (NotFound m, root)"
  shows "initialize_environment e w True
     = (Return (join [nl] [''Removed existing repository'',
          ''Error: git is not installed. Please run 'install_dependencies' first'']),
        w\<lparr>fs := remove (fs w) (ANSIBLE_DIR e),
          trace := trace w @ [Mkdir (WORK_DIR e), Rmtree (ANSIBLE_DIR e),
                              Spawn (clone_command e)]\<rparr>)"
proof -
  show ?thesis
    by (simp add: initialize_environment_def mkdir_work_dir_of_dir [OF d] exists_path_def d
        rmtree_def Let_def clone_repository_def subprocess_run_def p clone_timeout emit_def)
qed

section \<open>The recap of a playbook run\<close>

lemma strip_nonblank: "strip s \<noteq> [] \<longleftrightarrow> list_ex (\<lambda>c. \<not> isspace_char c) s"
proof -
  let ?d = "dropWhile isspace_char s"
  have 1: "?d = []" if a: "\<forall>x\<in>set ?d. isspace_char x"
  proof (rule ccontr)
    assume n: "?d \<noteq> []"
    then have "\<not> isspace_char (hd ?d)" by (rule hd_dropWhile)
    moreover from n have "hd ?d \<in> set ?d" by (rule hd_in_set)
    ultimately show False using a by blast
  qed
  have 2: "(?d = []) = (\<forall>x\<in>set s. isspace_char x)"
    by (rule dropWhile_eq_Nil_conv)
  have 3: "(strip s = []) = (\<forall>x\<in>set ?d. isspace_char x)"
    unfolding strip_def by (simp add: dropWhile_eq_Nil_conv)
  have 4: "(\<forall>x\<in>set ?d. isspace_char x) = (?d = [])"
  proof
    assume "\<forall>x\<in>set ?d. isspace_char x"
    then show "?d = []" by (rule 1)
  next
    assume e: "?d = []"
    show "\<forall>x\<in>set ?d. isspace_char x" unfolding e by simp
  qed
  have "(strip s = []) = (\<forall>x\<in>set s. isspace_char x)"
    unfolding 3 4 2 ..
  then show ?thesis
    by (simp add: list_ex_iff)
qed

lemma recap_loop_started:
  "recap_loop True summary ls
     = summary @ map (\<lambda>l. if sublist ''PLAY RECAP'' l then summary_header else l)
                   (filter (\<lambda>l. sublist ''PLAY RECAP'' l \<or> strip l \<noteq> []) ls)"
  by (induction ls arbitrary: summary) simp_all

lemma recap_loop_not_started:
  "recap_loop False summary ls
     = (case dropWhile (\<lambda>l. \<not> sublist ''PLAY RECAP'' l) ls of
          [] \<Rightarrow> summary
        | m # rest \<Rightarrow> recap_loop True (summary @ [summary_header]) rest)"
  by (induction ls arbitrary: summary) simp_all

lemma recap_summary_eq:
  "recap_summary out
     = (case dropWhile (\<lambda>l. \<not> sublist ''PLAY RECAP'' l) (split_nl out) of
          [] \<Rightarrow> []
        | m # rest \<Rightarrow>
            summary_header
            # map (\<lambda>l. if sublist ''PLAY RECAP'' l then summary_header else l)
                (filter (\<lambda>l. sublist ''PLAY RECAP'' l \<or> strip l \<noteq> []) rest))"
  unfolding recap_summary_def recap_loop_not_started
  by (cases "dropWhile (\<lambda>l. \<not> sublist ''PLAY RECAP'' l) (split_nl out)")
     (simp_all add: recap_loop_started del: dropWhile_eq_Nil_conv)

lemma run_playbook_exit_zero:
  assumes "initialized w" and "exists_path (fs w) (PLAYBOOK_FILE e)"
    and "proc e (playbook_command e tags limit check) (fs w) = (Exited secs 0 out err, root)"
  shows "run_playbook e w tags limit check
     = (Return (''Playbook executed successfully!'' @ [nl]
                @ join [nl] (last_n 10 (recap_summary out))),
        w\<lparr>fs := root, trace := trace w @ [Spawn (playbook_command e tags limit check)]\<rparr>)"
proof -
  have t: "timeout (playbook_command e tags limit check) = None"
    by (simp add: playbook_command_def)
  show ?thesis
    using assms(1,2)
    by (simp add: run_playbook_def try_catch_def subprocess_run_def assms(3) t emit_def
        playbook_result_def)
qed

section \<open>Viewing the configuration of a component\<close>

lemma update_fresh: "k \<notin> fst ` set al \<Longrightarrow> AList.update k v al = al @ [(k, v)]"
  by (induction al) auto

lemma comprehension_distinct:
  assumes "distinct ks" and "set ks \<inter> fst ` set acc = {}" and "set ks \<subseteq> fst ` set d"
  shows "foldl (\<lambda>a k. case map_of d k of None \<Rightarrow> a | Some v \<Rightarrow> AList.update k v a) acc ks
     = acc @ map (\<lambda>k. (k, the (map_of d k))) ks"
  using assms
proof (induction ks arbitrary: acc)
  case Nil
  then show ?case by simp
next
  case (Cons k ks)
  from Cons.prems(3) have "k \<in> fst ` set d" by simp
  then obtain v where v: "map_of d k = Some v"
    by (metis map_of_eq_None_iff not_Some_eq)
  from Cons.prems(2) have f: "AList.update k v acc = acc @ [(k, v)]"
    by (intro update_fresh) auto
  have "set ks \<inter> fst ` set (acc @ [(k, v)]) = {}"
    using Cons.prems(1,2) by auto
  with Cons.IH [of "acc @ [(k, v)]"] Cons.prems(1,3)
  show ?case by (simp add: v f)
qed

lemma values_of_distinct:
  "distinct (map fst d) \<Longrightarrow>
   map (\<lambda>k. (k, the (map_of d k))) (filter P (map fst d)) = filter (\<lambda>(k, v). P k) d"
proof (induction d)
  case Nil
  then show ?case by simp
next
  case (Cons a d)
  obtain k v where a: "a = (k, v)" by (cases a)
  from Cons.prems a have n: "k \<notin> fst ` set d" and dd: "distinct (map fst d)" by auto
  have "map (\<lambda>x. (x, the (map_of ((k, v) # d) x))) (filter P (map fst d))
      = map (\<lambda>x. (x, the (map_of d x))) (filter P (map fst d))"
    using n by (intro map_cong) auto
  with Cons.IH [OF dd] show ?case by (simp add: a)
qed

lemma filtered_config_distinct:
  assumes "distinct (map fst config)"
  shows "filtered_config component config
     = filter (\<lambda>(k, v). sublist (lower component) (lower k) \<or> k \<in> set always_included) config"
proof -
  let ?P = "\<lambda>k. sublist (lower component) (lower k) \<or> k \<in> set always_included"
  have "filtered_config component config
      = [] @ map (\<lambda>k. (k, the (map_of config k))) (filter ?P (map fst config))"
    unfolding filtered_config_def relevant_keys_def
    using assms by (intro comprehension_distinct) (auto simp add: distinct_map_filter)
  then show ?thesis
    using values_of_distinct [OF assms, of ?P] by simp
qed

lemma view_config_component:
  assumes "initialized w"
    and "read_file (fs w) (config_file e) = Inr txt"
    and "yaml_load e txt = Inr (PDict config)"
    and "component \<noteq> ''all''"
  shows "view_config e w component
     = (Return (if filtered_config component config = []
                then ''No configuration found for component: '' @ component
                else ''Configuration for '' @ component @ '':'' @ [nl]
                     @ yaml_dump e (PDict (filtered_config component config))),
        emit (ReadFile (config_file e)) w)"
proof -
  from assms(2) have x: "exists_path (fs w) (config_file e)"
    by (auto simp add: read_file_def exists_path_def split: option.splits)
  have l: "load_config e w = (Return (PDict config), emit (ReadFile (config_file e)) w)"
    by (simp add: load_config_def assms(2,3))
  show ?thesis
    using assms(1,4) x by (simp add: view_config_def l try_catch_def)
qed

section \<open>Processes, timeouts and exceptions of the handlers\<close>

lemma timeouts_of_append: "timeouts_of (xs @ ys) = timeouts_of xs @ timeouts_of ys"
  by (induction xs rule: timeouts_of.induct) simp_all

lemma adds_iff:
  "adds ts w w' \<longleftrightarrow> (\<exists>new. trace w' = trace w @ new \<and> set (timeouts_of new) \<subseteq> set ts)"
proof
  assume a: "adds ts w w'"
  then have "trace w' = trace w @ performed w w'"
    unfolding adds_def performed_def by (metis append_take_drop_id)
  moreover from a have "set (timeouts_of (performed w w')) \<subseteq> set ts"
    unfolding adds_def by (auto simp add: list_all_iff)
  ultimately show "\<exists>new. trace w' = trace w @ new \<and> set (timeouts_of new) \<subseteq> set ts"
    by blast
next
  assume "\<exists>new. trace w' = trace w @ new \<and> set (timeouts_of new) \<subseteq> set ts"
  then obtain new where "trace w' = trace w @ new" and "set (timeouts_of new) \<subseteq> set ts"
    by blast
  then show "adds ts w w'"
    unfolding adds_def performed_def by (auto simp add: list_all_iff)
qed

lemma adds_refl: "adds ts w w"
  by (simp add: adds_iff)

lemma adds_trans: "adds ts w w1 \<Longrightarrow> adds ts w1 w2 \<Longrightarrow> adds ts w w2"
  unfolding adds_iff by (auto simp add: timeouts_of_append)

lemma adds_same_trace: "adds ts w w1 \<Longrightarrow> trace w2 = trace w1 \<Longrightarrow> adds ts w w2"
  unfolding adds_iff by simp

lemma adds_emit:
  "adds ts w w1 \<Longrightarrow> set (timeouts_of [x]) \<subseteq> set ts \<Longrightarrow> trace w2 = trace w1
     \<Longrightarrow> adds ts w (emit x w2)"
  unfolding adds_iff emit_def by (auto simp add: timeouts_of_append)

lemma subprocess_run_trace:
  "trace (snd (subprocess_run e c w)) = trace w @ [Spawn c]"
  by (simp add: subprocess_run_def emit_def split: prod.splits proc_result.splits option.splits)

lemma subprocess_run_adds:
  assumes "adds ts w0 w" and "timeout c \<in> set ts"
  shows "adds ts w0 (snd (subprocess_run e c w))"
proof -
  have "adds ts w (snd (subprocess_run e c w))"
    unfolding adds_iff subprocess_run_trace using assms(2) by simp
  with assms(1) show ?thesis by (rule adds_trans)
qed

lemma subprocess_run_timeout_returns:
  "timeout c \<noteq> None \<Longrightarrow> fst (subprocess_run e c w) \<noteq> Block"
  by (auto simp add: subprocess_run_def split: prod.splits proc_result.splits option.splits)

lemma subprocess_run_hangs:
  "timeout c = None \<Longrightarrow> fst (proc e c (fs w)) = Hangs \<Longrightarrow> fst (subprocess_run e c w) = Block"
  by (auto simp add: subprocess_run_def split: prod.splits proc_result.splits)

lemma try_catch_adds:
  assumes "adds ts w0 (snd r)"
    and "\<And>x w1. adds ts w0 w1 \<Longrightarrow> adds ts w0 (snd (ok x w1))"
    and "\<And>x w1. adds ts w0 w1 \<Longrightarrow> adds ts w0 (snd (handler x w1))"
  shows "adds ts w0 (snd (try_catch r ok handler))"
proof (cases r)
  case (Pair out w1)
  with assms show ?thesis
    by (cases out) (simp_all add: try_catch_def)
qed

lemma try_catch_no_raise:
  assumes "\<And>x w1. fst (ok x w1) \<noteq> Raise y" and "\<And>x w1. fst (handler x w1) \<noteq> Raise y"
  shows "fst (try_catch r ok handler) \<noteq> Raise y"
proof (cases r)
  case (Pair out w1)
  with assms show ?thesis
    by (cases out) (simp_all add: try_catch_def)
qed

lemma try_catch_no_block:
  assumes "fst r \<noteq> Block"
    and "\<And>x w1. fst (ok x w1) \<noteq> Block" and "\<And>x w1. fst (handler x w1) \<noteq> Block"
  shows "fst (try_catch r ok handler) \<noteq> Block"
proof (cases r)
  case (Pair out w1)
  with assms show ?thesis
    by (cases out) (simp_all add: try_catch_def)
qed

lemma chmod_adds: "adds ts w0 w \<Longrightarrow> adds ts w0 (snd (chmod p mode w))"
  by (simp add: chmod_def adds_emit)

lemma load_config_adds: "adds ts w0 w \<Longrightarrow> adds ts w0 (snd (load_config e w))"
  by (simp add: load_config_def adds_emit split: sum.splits)

lemma store_config_adds: "adds ts w0 w \<Longrightarrow> adds ts w0 (snd (store_config e config w))"
  by (simp add: store_config_def adds_emit split: sum.splits)

lemma http_call_adds: "adds ts w0 w \<Longrightarrow> adds ts w0 (snd (http_call e req w))"
  by (simp add: http_call_def adds_emit split: http_result.splits)

text \<open>\<^verbatim>\<open>_run_playbook\<close>\<close>

lemma run_playbook_adds: "adds [None] w (snd (run_playbook e w tags limit check))"
  unfolding run_playbook_def
  by (auto intro!: try_catch_adds subprocess_run_adds simp add: adds_refl playbook_command_def)

lemma run_playbook_no_raise: "fst (run_playbook e w tags limit check) \<noteq> Raise y"
  unfolding run_playbook_def
  by (simp add: try_catch_no_raise)

text \<open>\<^verbatim>\<open>_quick_deploy\<close>\<close>

lemma quick_deploy_handler_snd: "snd (quick_deploy_handler x w) = w"
  by (simp add: quick_deploy_handler_def)

lemma quick_deploy_handler_fst:
  "fst (quick_deploy_handler x w) \<noteq> Raise y" "fst (quick_deploy_handler x w) \<noteq> Block"
  by (simp_all add: quick_deploy_handler_def)

lemma quick_deploy_adds: "adds [Some 300] w (snd (quick_deploy e w))"
  unfolding quick_deploy_def
  by (auto intro!: try_catch_adds subprocess_run_adds chmod_adds
      simp add: adds_refl quick_deploy_command_def quick_deploy_handler_snd Let_def)

lemma quick_deploy_no_raise: "fst (quick_deploy e w) \<noteq> Raise y"
  unfolding quick_deploy_def
  by (simp add: try_catch_no_raise quick_deploy_handler_fst Let_def)

lemma quick_deploy_no_block: "fst (quick_deploy e w) \<noteq> Block"
  unfolding quick_deploy_def
  by (simp add: try_catch_no_block subprocess_run_timeout_returns
      quick_deploy_handler_fst quick_deploy_command_def chmod_def Let_def)

text \<open>\<^verbatim>\<open>_docker_build\<close> and \<^verbatim>\<open>_docker_run\<close>\<close>

lemma docker_build_adds: "adds [None] w (snd (docker_build e w tag))"
  unfolding docker_build_def
  by (auto intro!: try_catch_adds subprocess_run_adds simp add: adds_refl docker_build_command_def)

lemma docker_build_no_raise: "fst (docker_build e w tag) \<noteq> Raise y"
  unfolding docker_build_def
  by (simp add: try_catch_no_raise)

lemma docker_run_adds: "adds [None] w (snd (docker_run e w tag detach))"
  unfolding docker_run_def
  by (auto intro!: try_catch_adds subprocess_run_adds simp add: adds_refl docker_run_command_def)

lemma docker_run_no_raise: "fst (docker_run e w tag detach) \<noteq> Raise y"
  unfolding docker_run_def
  by (simp add: try_catch_no_raise)

text \<open>\<^verbatim>\<open>_initialize_environment\<close>\<close>

lemma clone_repository_adds:
  "adds [None] w0 w \<Longrightarrow> adds [None] w0 (snd (clone_repository e w results))"
proof -
  assume a: "adds [None] w0 w"
  have s: "adds [None] w0 (snd (subprocess_run e (clone_command e) w))"
    using a by (rule subprocess_run_adds) (simp add: clone_timeout)
  show ?thesis
    using s unfolding clone_repository_def
    by (cases "subprocess_run e (clone_command e) w")
       (auto split: outcome.splits elim: adds_same_trace)
qed

lemma adds_fs_update [simp]: "adds ts w0 (w\<lparr>fs := r\<rparr>) = adds ts w0 w"
  by (simp add: adds_def performed_def)

lemma adds_initialized_update [simp]: "adds ts w0 (w\<lparr>initialized := b\<rparr>) = adds ts w0 w"
  by (simp add: adds_def performed_def)

lemma adds_emit_step:
  "adds ts w0 w \<Longrightarrow> set (timeouts_of [x]) \<subseteq> set ts \<Longrightarrow> adds ts w0 (emit x w)"
  by (rule adds_emit) simp_all

lemma initialize_environment_adds:
  "adds [None] w (snd (initialize_environment e w force))"
  unfolding initialize_environment_def
  by (auto simp add: Let_def adds_refl split: sum.splits
      intro!: clone_repository_adds adds_emit_step)

text \<open>\<^verbatim>\<open>_check_dependencies\<close>\<close>

lemma version_command_timeout: "timeout (version_command cmd) = Some 5"
  by (simp add: version_command_def)

lemma check_deps_loop_adds:
  "adds [Some 5] w0 w \<Longrightarrow> adds [Some 5] w0 (snd (check_deps_loop e ds results missing w))"
proof (induction e ds results missing w rule: check_deps_loop.induct)
  case (1 e results missing w)
  then show ?case by simp
next
  case (2 e cmd description rest results missing w)
  have s: "adds [Some 5] w0 (snd (subprocess_run e (version_command cmd) w))"
    using "2.prems" by (rule subprocess_run_adds) (simp add: version_command_timeout)
  show ?case
  proof (cases "which e cmd")
    case False
    with 2 show ?thesis by simp
  next
    case True
    show ?thesis
    proof (cases "subprocess_run e (version_command cmd) w")
      case (Pair out w1)
      with s have a: "adds [Some 5] w0 w1" by simp
      show ?thesis
      proof (cases out)
        case (Return r)
        with True Pair a "2.IH"(1) [OF True Pair [symmetric]] show ?thesis
          by simp
      next
        case (Raise x)
        with True Pair a "2.IH"(2) [OF True Pair [symmetric]] show ?thesis
          by simp
      next
        case Block
        with True Pair a show ?thesis by simp
      qed
    qed
  qed
qed

lemma check_deps_loop_returns:
  "\<exists>v. fst (check_deps_loop e ds results missing w) = Return v"
proof (induction e ds results missing w rule: check_deps_loop.induct)
  case (1 e results missing w)
  then show ?case by simp
next
  case (2 e cmd description rest results missing w)
  show ?case
  proof (cases "which e cmd")
    case False
    with "2.IH"(3) show ?thesis by simp
  next
    case True
    have nb: "fst (subprocess_run e (version_command cmd) w) \<noteq> Block"
      by (rule subprocess_run_timeout_returns) (simp add: version_command_timeout)
    show ?thesis
    proof (cases "subprocess_run e (version_command cmd) w")
      case (Pair out w1)
      show ?thesis
      proof (cases out)
        case (Return r)
        with True Pair "2.IH"(1) [OF True Pair [symmetric]] show ?thesis
          by simp
      next
        case (Raise x)
        with True Pair "2.IH"(2) [OF True Pair [symmetric]] show ?thesis
          by simp
      next
        case Block
        with Pair nb show ?thesis by simp
      qed
    qed
  qed
qed

lemma check_dependencies_adds: "adds [Some 5] w (snd (check_dependencies e w))"
proof -
  have "adds [Some 5] w (snd (check_deps_loop e deps [] [] w))"
    by (rule check_deps_loop_adds) (rule adds_refl)
  then show ?thesis
    unfolding check_dependencies_def
    by (cases "check_deps_loop e deps [] [] w") (auto split: outcome.splits)
qed

lemma check_dependencies_returns: "\<exists>v. fst (check_dependencies e w) = Return v"
proof -
  obtain v where "fst (check_deps_loop e deps [] [] w) = Return v"
    using check_deps_loop_returns by blast
  then show ?thesis
    unfolding check_dependencies_def
    by (cases "check_deps_loop e deps [] [] w") (auto split: outcome.splits prod.splits)
qed

text \<open>Service management\<close>

lemma systemctl_timeout: "timeout (systemctl verb service) = None"
  by (simp add: systemctl_def)

lemma check_services_loop_adds:
  "adds [None] w0 w \<Longrightarrow> adds [None] w0 (snd (check_services_loop e ss status_info w))"
proof (induction e ss status_info w rule: check_services_loop.induct)
  case (1 e status_info w)
  then show ?case by simp
next
  case (2 e service rest status_info w)
  have s: "adds [None] w0 (snd (subprocess_run e (systemctl ''is-active'' service) w))"
    using "2.prems" by (rule subprocess_run_adds) (simp add: systemctl_timeout)
  show ?case
  proof (cases "subprocess_run e (systemctl ''is-active'' service) w")
    case (Pair out w1)
    with s have a: "adds [None] w0 w1" by simp
    show ?thesis
    proof (cases out)
      case (Return r)
      with Pair a "2.IH"(1) [OF Pair [symmetric]] show ?thesis by simp
    next
      case (Raise x)
      with Pair a "2.IH"(2) [OF Pair [symmetric]] show ?thesis by simp
    next
      case Block
      with Pair a show ?thesis by simp
    qed
  qed
qed

lemma check_services_loop_no_raise:
  "fst (check_services_loop e ss status_info w) \<noteq> Raise y"
proof (induction e ss status_info w rule: check_services_loop.induct)
  case (1 e status_info w)
  then show ?case by simp
next
  case (2 e service rest status_info w)
  show ?case
  proof (cases "subprocess_run e (systemctl ''is-active'' service) w")
    case (Pair out w1)
    show ?thesis
    proof (cases out)
      case (Return r)
      with Pair "2.IH"(1) [OF Pair [symmetric]] show ?thesis by simp
    next
      case (Raise x)
      with Pair "2.IH"(2) [OF Pair [symmetric]] show ?thesis by simp
    next
      case Block
      with Pair show ?thesis by simp
    qed
  qed
qed

lemma check_services_adds: "adds [None] w (snd (check_services e w))"
  unfolding check_services_def
  by (rule try_catch_adds) (simp_all add: check_services_loop_adds adds_refl)

lemma check_services_no_raise: "fst (check_services e w) \<noteq> Raise y"
proof (cases "check_services_loop e services [] w")
  case (Pair out w1)
  with check_services_loop_no_raise [of e services "[]" w y] show ?thesis
    unfolding check_services_def by (cases out) (simp_all add: try_catch_def)
qed

lemma restart_all_loop_adds:
  "adds [None] w0 w \<Longrightarrow> adds [None] w0 (snd (restart_all_loop e ss results w))"
proof (induction e ss results w rule: restart_all_loop.induct)
  case (1 e results w)
  then show ?case by simp
next
  case (2 e svc rest results w)
  have s: "adds [None] w0 (snd (subprocess_run e (systemctl ''restart'' svc) w))"
    using "2.prems" by (rule subprocess_run_adds) (simp add: systemctl_timeout)
  show ?case
  proof (cases "subprocess_run e (systemctl ''restart'' svc) w")
    case (Pair out w1)
    with s have a: "adds [None] w0 w1" by simp
    show ?thesis
    proof (cases out)
      case (Return r)
      with Pair a "2.IH"(1) [OF Pair [symmetric]] show ?thesis by simp
    next
      case (Raise x)
      with Pair a "2.IH"(2) [OF Pair [symmetric]] show ?thesis by simp
    next
      case Block
      with Pair a show ?thesis by simp
    qed
  qed
qed

lemma restart_all_loop_no_raise: "fst (restart_all_loop e ss results w) \<noteq> Raise y"
proof (induction e ss results w rule: restart_all_loop.induct)
  case (1 e results w)
  then show ?case by simp
next
  case (2 e svc rest results w)
  show ?case
  proof (cases "subprocess_run e (systemctl ''restart'' svc) w")
    case (Pair out w1)
    show ?thesis
    proof (cases out)
      case (Return r)
      with Pair "2.IH"(1) [OF Pair [symmetric]] show ?thesis by simp
    next
      case (Raise x)
      with Pair "2.IH"(2) [OF Pair [symmetric]] show ?thesis by simp
    next
      case Block
      with Pair show ?thesis by simp
    qed
  qed
qed

lemma restart_service_adds: "adds [None] w (snd (restart_service e w service))"
  unfolding restart_service_def
  by (auto intro!: try_catch_adds subprocess_run_adds restart_all_loop_adds
      simp add: adds_refl systemctl_timeout)

lemma restart_service_no_raise: "fst (restart_service e w service) \<noteq> Raise y"
proof (cases "service = ''all''")
  case True
  show ?thesis
  proof (cases "restart_all_loop e services [] w")
    case (Pair out w1)
    with True restart_all_loop_no_raise [of e services "[]" w y] show ?thesis
      unfolding restart_service_def by (cases out) (simp_all add: try_catch_def)
  qed
next
  case False
  then show ?thesis
    unfolding restart_service_def by (simp add: try_catch_no_raise)
qed

lemma view_logs_adds: "adds [None] w (snd (view_logs e w service lines))"
  unfolding view_logs_def
  by (auto intro!: try_catch_adds subprocess_run_adds simp add: adds_refl view_logs_command_def)

lemma view_logs_no_raise: "fst (view_logs e w service lines) \<noteq> Raise y"
  unfolding view_logs_def by (simp add: try_catch_no_raise)

text \<open>API interactions\<close>

lemma commit_transaction_adds:
  "adds [None] w (snd (commit_transaction e w transaction_id val))"
  unfolding commit_transaction_def
  by (auto intro!: try_catch_adds http_call_adds simp add: adds_refl)

lemma commit_transaction_no_raise:
  "fst (commit_transaction e w transaction_id val) \<noteq> Raise y"
  unfolding commit_transaction_def by (simp add: try_catch_no_raise)

lemma get_transaction_adds: "adds [None] w (snd (get_transaction e w transaction_id))"
  unfolding get_transaction_def
  by (auto intro!: try_catch_adds http_call_adds simp add: adds_refl)

lemma get_transaction_no_raise: "fst (get_transaction e w transaction_id) \<noteq> Raise y"
  unfolding get_transaction_def by (simp add: try_catch_no_raise)

lemma graphql_query_adds: "adds [None] w (snd (graphql_query e w query variables))"
  unfolding graphql_query_def
  by (auto intro!: try_catch_adds http_call_adds simp add: adds_refl split: sum.splits)

lemma graphql_query_no_raise: "fst (graphql_query e w query variables) \<noteq> Raise y"
  unfolding graphql_query_def by (simp add: try_catch_no_raise split: sum.splits)

text \<open>Diagnostics\<close>

lemma check_ports_adds: "adds [None] w (snd (check_ports e w))"
  unfolding check_ports_def
  by (auto intro!: try_catch_adds subprocess_run_adds simp add: adds_refl Let_def)

lemma check_ports_no_raise: "fst (check_ports e w) \<noteq> Raise y"
  unfolding check_ports_def by (simp add: try_catch_no_raise Let_def)

lemma view_config_adds: "adds [None] w (snd (view_config e w component))"
  unfolding view_config_def
  by (auto intro!: try_catch_adds load_config_adds
      simp add: adds_refl view_config_handler_def split: pyval.splits)

lemma view_config_no_raise: "fst (view_config e w component) \<noteq> Raise y"
  unfolding view_config_def
  by (simp add: try_catch_no_raise view_config_handler_def split: pyval.splits)

lemma update_config_adds: "adds [None] w (snd (update_config e w k val))"
  unfolding update_config_def
  by (auto intro!: try_catch_adds load_config_adds store_config_adds
      simp add: adds_refl update_config_handler_def split: sum.splits)

lemma update_config_no_raise: "fst (update_config e w k val) \<noteq> Raise y"
  unfolding update_config_def
  by (simp add: try_catch_no_raise update_config_handler_def split: sum.splits)

text \<open>The dispatcher\<close>

lemma dispatch_unknown:
  "nm \<notin> set catalog \<Longrightarrow> dispatch e w nm args = (Return (''Unknown tool: '' @ nm), w)"
  by (simp add: catalog_def list_tools_def dispatch_def)

lemma call_tool_snd: "snd (call_tool e w nm args) = snd (dispatch e w nm args)"
  unfolding call_tool_def
  by (cases "dispatch e w nm args") (simp split: outcome.splits)

lemma call_tool_raise:
  "(fst (call_tool e w nm args) = Raise x) = (fst (dispatch e w nm args) = Raise x)"
  unfolding call_tool_def
  by (cases "dispatch e w nm args") (simp split: outcome.splits)

lemma call_tool_block:
  "(fst (call_tool e w nm args) = Block) = (fst (dispatch e w nm args) = Block)"
  unfolding call_tool_def
  by (cases "dispatch e w nm args") (simp split: outcome.splits)

lemma subscript_adds:
  "(\<And>x. adds ts w (snd (f x))) \<Longrightarrow> adds ts w (snd (subscript v k w f))"
  by (cases v) (simp_all add: subscript_def adds_refl)

lemma subscript_no_raise:
  "v \<noteq> None \<Longrightarrow> (\<And>x. fst (f x) \<noteq> Raise y) \<Longrightarrow> fst (subscript v k w f) \<noteq> Raise y"
  by (cases v) (simp_all add: subscript_def)

lemma tool_timeout_simps:
  "tool_timeout ''initialize_environment'' = None"
  "tool_timeout ''check_dependencies'' = Some 5"
  "tool_timeout ''install_dependencies'' = None"
  "tool_timeout ''run_playbook'' = None"
  "tool_timeout ''quick_deploy'' = Some 300"
  "tool_timeout ''docker_build'' = None"
  "tool_timeout ''docker_run'' = None"
  "tool_timeout ''check_services'' = None"
  "tool_timeout ''restart_service'' = None"
  "tool_timeout ''view_logs'' = None"
  "tool_timeout ''commit_transaction'' = None"
  "tool_timeout ''get_transaction'' = None"
  "tool_timeout ''graphql_query'' = None"
  "tool_timeout ''check_ports'' = None"
  "tool_timeout ''view_config'' = None"
  "tool_timeout ''update_config'' = None"
  by (simp_all add: tool_timeout_def)

lemma dispatch_adds: "adds [tool_timeout nm] w (snd (dispatch e w nm args))"
proof (cases "nm \<in> set catalog")
  case False
  then show ?thesis by (simp add: dispatch_unknown adds_refl)
next
  case True
  then have "nm = ''initialize_environment'' \<or> nm = ''check_dependencies''
     \<or> nm = ''install_dependencies'' \<or> nm = ''run_playbook'' \<or> nm = ''quick_deploy''
     \<or> nm = ''docker_build'' \<or> nm = ''docker_run'' \<or> nm = ''check_services''
     \<or> nm = ''restart_service'' \<or> nm = ''view_logs'' \<or> nm = ''commit_transaction''
     \<or> nm = ''get_transaction'' \<or> nm = ''graphql_query'' \<or> nm = ''check_ports''
     \<or> nm = ''view_config'' \<or> nm = ''update_config''"
    by (simp only: catalog_names)
  then show ?thesis
  proof (elim disjE)
    assume n: "nm = ''initialize_environment''"
    show ?thesis unfolding n dispatch_initialize_environment tool_timeout_simps
      by (rule initialize_environment_adds)
  next
    assume n: "nm = ''check_dependencies''"
    show ?thesis unfolding n dispatch_check_dependencies tool_timeout_simps
      by (rule check_dependencies_adds)
  next
    assume n: "nm = ''install_dependencies''"
    show ?thesis unfolding n dispatch_install_dependencies tool_timeout_simps
      by (simp add: install_dependencies_def adds_refl)
  next
    assume n: "nm = ''run_playbook''"
    show ?thesis unfolding n dispatch_run_playbook tool_timeout_simps
      by (rule run_playbook_adds)
  next
    assume n: "nm = ''quick_deploy''"
    show ?thesis unfolding n dispatch_quick_deploy tool_timeout_simps
      by (rule quick_deploy_adds)
  next
    assume n: "nm = ''docker_build''"
    show ?thesis unfolding n dispatch_docker_build tool_timeout_simps
      by (rule docker_build_adds)
  next
    assume n: "nm = ''docker_run''"
    show ?thesis unfolding n dispatch_docker_run tool_timeout_simps
      by (rule docker_run_adds)
  next
    assume n: "nm = ''check_services''"
    show ?thesis unfolding n dispatch_check_services tool_timeout_simps
      by (rule check_services_adds)
  next
    assume n: "nm = ''restart_service''"
    show ?thesis unfolding n dispatch_restart_service tool_timeout_simps
      by (rule subscript_adds) (rule restart_service_adds)
  next
    assume n: "nm = ''view_logs''"
    show ?thesis unfolding n dispatch_view_logs tool_timeout_simps
      by (rule subscript_adds) (rule view_logs_adds)
  next
    assume n: "nm = ''commit_transaction''"
    show ?thesis unfolding n dispatch_commit_transaction tool_timeout_simps
      by (intro subscript_adds) (rule commit_transaction_adds)
  next
    assume n: "nm = ''get_transaction''"
    show ?thesis unfolding n dispatch_get_transaction tool_timeout_simps
      by (rule subscript_adds) (rule get_transaction_adds)
  next
    assume n: "nm = ''graphql_query''"
    show ?thesis unfolding n dispatch_graphql_query tool_timeout_simps
      by (rule subscript_adds) (rule graphql_query_adds)
  next
    assume n: "nm = ''check_ports''"
    show ?thesis unfolding n dispatch_check_ports tool_timeout_simps
      by (rule check_ports_adds)
  next
    assume n: "nm = ''view_config''"
    show ?thesis unfolding n dispatch_view_config tool_timeout_simps
      by (rule subscript_adds) (rule view_config_adds)
  next
    assume n: "nm = ''update_config''"
    show ?thesis unfolding n dispatch_update_config tool_timeout_simps
      by (intro subscript_adds) (rule update_config_adds)
  qed
qed

lemma dispatch_timeout_tools_return:
  assumes "nm = ''quick_deploy'' \<or> nm = ''check_dependencies''"
  shows "fst (dispatch e w nm args) \<noteq> Block"
  using assms
proof (elim disjE)
  assume n: "nm = ''quick_deploy''"
  show ?thesis unfolding n dispatch_quick_deploy by (rule quick_deploy_no_block)
next
  assume n: "nm = ''check_dependencies''"
  obtain v where "fst (check_dependencies e w) = Return v"
    using check_dependencies_returns by blast
  then show ?thesis unfolding n dispatch_check_dependencies by simp
qed

text \<open>Exceptions that leave the dispatcher\<close>

lemma required_present_simps:
  "required_present ''initialize_environment'' args"
  "required_present ''check_dependencies'' args"
  "required_present ''install_dependencies'' args"
  "required_present ''run_playbook'' args"
  "required_present ''quick_deploy'' args"
  "required_present ''docker_build'' args"
  "required_present ''docker_run'' args"
  "required_present ''check_services'' args"
  "required_present ''restart_service'' args = (arg_service args \<noteq> None)"
  "required_present ''view_logs'' args = (arg_service args \<noteq> None)"
  "required_present ''commit_transaction'' args
     = (arg_transaction_id args \<noteq> None \<and> arg_value args \<noteq> None)"
  "required_present ''get_transaction'' args = (arg_transaction_id args \<noteq> None)"
  "required_present ''graphql_query'' args = (arg_query args \<noteq> None)"
  "required_present ''check_ports'' args"
  by (simp_all add: required_present_def required_of_simps present_simps)

lemma dispatch_no_raise:
  assumes "nm \<in> set catalog" and "nm \<noteq> ''initialize_environment''"
    and "required_present nm args"
  shows "fst (dispatch e w nm args) \<noteq> Raise y"
proof -
  from assms(1,2) have "nm = ''check_dependencies''
     \<or> nm = ''install_dependencies'' \<or> nm = ''run_playbook'' \<or> nm = ''quick_deploy''
     \<or> nm = ''docker_build'' \<or> nm = ''docker_run'' \<or> nm = ''check_services''
     \<or> nm = ''restart_service'' \<or> nm = ''view_logs'' \<or> nm = ''commit_transaction''
     \<or> nm = ''get_transaction'' \<or> nm = ''graphql_query'' \<or> nm = ''check_ports''
     \<or> nm = ''view_config'' \<or> nm = ''update_config''"
    by (simp only: catalog_names) simp
  then show ?thesis
  proof (elim disjE)
    assume n: "nm = ''check_dependencies''"
    obtain v where "fst (check_dependencies e w) = Return v"
      using check_dependencies_returns by blast
    then show ?thesis unfolding n dispatch_check_dependencies by simp
  next
    assume n: "nm = ''install_dependencies''"
    show ?thesis unfolding n dispatch_install_dependencies
      by (simp add: install_dependencies_def)
  next
    assume n: "nm = ''run_playbook''"
    show ?thesis unfolding n dispatch_run_playbook by (rule run_playbook_no_raise)
  next
    assume n: "nm = ''quick_deploy''"
    show ?thesis unfolding n dispatch_quick_deploy by (rule quick_deploy_no_raise)
  next
    assume n: "nm = ''docker_build''"
    show ?thesis unfolding n dispatch_docker_build by (rule docker_build_no_raise)
  next
    assume n: "nm = ''docker_run''"
    show ?thesis unfolding n dispatch_docker_run by (rule docker_run_no_raise)
  next
    assume n: "nm = ''check_services''"
    show ?thesis unfolding n dispatch_check_services by (rule check_services_no_raise)
  next
    assume n: "nm = ''restart_service''"
    from assms(3) have "arg_service args \<noteq> None"
      unfolding n by (simp add: required_present_simps)
    then show ?thesis unfolding n dispatch_restart_service
      by (rule subscript_no_raise) (rule restart_service_no_raise)
  next
    assume n: "nm = ''view_logs''"
    from assms(3) have "arg_service args \<noteq> None"
      unfolding n by (simp add: required_present_simps)
    then show ?thesis unfolding n dispatch_view_logs
      by (rule subscript_no_raise) (rule view_logs_no_raise)
  next
    assume n: "nm = ''commit_transaction''"
    from assms(3) have a: "arg_transaction_id args \<noteq> None" and b: "arg_value args \<noteq> None"
      unfolding n by (simp_all add: required_present_simps)
    show ?thesis unfolding n dispatch_commit_transaction
      by (intro subscript_no_raise a b commit_transaction_no_raise)
  next
    assume n: "nm = ''get_transaction''"
    from assms(3) have "arg_transaction_id args \<noteq> None"
      unfolding n by (simp add: required_present_simps)
    then show ?thesis unfolding n dispatch_get_transaction
      by (rule subscript_no_raise) (rule get_transaction_no_raise)
  next
    assume n: "nm = ''graphql_query''"
    from assms(3) have "arg_query args \<noteq> None"
      unfolding n by (simp add: required_present_simps)
    then show ?thesis unfolding n dispatch_graphql_query
      by (rule subscript_no_raise) (rule graphql_query_no_raise)
  next
    assume n: "nm = ''check_ports''"
    show ?thesis unfolding n dispatch_check_ports by (rule check_ports_no_raise)
  next
    assume n: "nm = ''view_config''"
    from assms(3) have "arg_component args \<noteq> None"
      unfolding n by (simp add: required_present_view_config)
    then show ?thesis unfolding n dispatch_view_config
      by (rule subscript_no_raise) (rule view_config_no_raise)
  next
    assume n: "nm = ''update_config''"
    from assms(3) have a: "arg_key args \<noteq> None" and b: "arg_value args \<noteq> None"
      unfolding n by (simp_all add: required_present_update_config)
    show ?thesis unfolding n dispatch_update_config
      by (intro subscript_no_raise a b update_config_no_raise)
  qed
qed

lemma subscript_missing:
  "v = None \<Longrightarrow> subscript v k w f = (Raise (Exn KeyError (quoted k)), w)"
  by (simp add: subscript_def)

lemma subscript_present: "v \<noteq> None \<Longrightarrow> subscript v k w f = f (the v)"
  by (cases v) (simp_all add: subscript_def)

lemma dispatch_missing:
  assumes "nm \<in> set catalog" and "\<not> required_present nm args"
  shows "\<exists>k. k \<in> set (required_of nm) \<and> \<not> present args k
           \<and> dispatch e w nm args = (Raise (Exn KeyError (quoted k)), w)"
proof -
  from assms(1) have "nm = ''initialize_environment'' \<or> nm = ''check_dependencies''
     \<or> nm = ''install_dependencies'' \<or> nm = ''run_playbook'' \<or> nm = ''quick_deploy''
     \<or> nm = ''docker_build'' \<or> nm = ''docker_run'' \<or> nm = ''check_services''
     \<or> nm = ''restart_service'' \<or> nm = ''view_logs'' \<or> nm = ''commit_transaction''
     \<or> nm = ''get_transaction'' \<or> nm = ''graphql_query'' \<or> nm = ''check_ports''
     \<or> nm = ''view_config'' \<or> nm = ''update_config''"
    by (simp only: catalog_names)
  then show ?thesis
  proof (elim disjE)
    assume n: "nm = ''initialize_environment''"
    with assms(2) show ?thesis by (simp add: required_present_simps)
  next
    assume n: "nm = ''check_dependencies''"
    with assms(2) show ?thesis by (simp add: required_present_simps)
  next
    assume n: "nm = ''install_dependencies''"
    with assms(2) show ?thesis by (simp add: required_present_simps)
  next
    assume n: "nm = ''run_playbook''"
    with assms(2) show ?thesis by (simp add: required_present_simps)
  next
    assume n: "nm = ''quick_deploy''"
    with assms(2) show ?thesis by (simp add: required_present_simps)
  next
    assume n: "nm = ''docker_build''"
    with assms(2) show ?thesis by (simp add: required_present_simps)
  next
    assume n: "nm = ''docker_run''"
    with assms(2) show ?thesis by (simp add: required_present_simps)
  next
    assume n: "nm = ''check_services''"
    with assms(2) show ?thesis by (simp add: required_present_simps)
  next
    assume n: "nm = ''check_ports''"
    with assms(2) show ?thesis by (simp add: required_present_simps)
  next
    assume n: "nm = ''restart_service''"
    from assms(2) have m: "arg_service args = None"
      unfolding n by (simp add: required_present_simps)
    show ?thesis
    proof (intro exI [of _ "''service''"] conjI)
      show "''service'' \<in> set (required_of nm)" unfolding n by (simp add: required_of_simps)
      show "\<not> present args ''service''" by (simp add: present_simps m)
      show "dispatch e w nm args = (Raise (Exn KeyError (quoted ''service'')), w)"
        unfolding n dispatch_restart_service by (rule subscript_missing) (rule m)
    qed
  next
    assume n: "nm = ''view_logs''"
    from assms(2) have m: "arg_service args = None"
      unfolding n by (simp add: required_present_simps)
    show ?thesis
    proof (intro exI [of _ "''service''"] conjI)
      show "''service'' \<in> set (required_of nm)" unfolding n by (simp add: required_of_simps)
      show "\<not> present args ''service''" by (simp add: present_simps m)
      show "dispatch e w nm args = (Raise (Exn KeyError (quoted ''service'')), w)"
        unfolding n dispatch_view_logs by (rule subscript_missing) (rule m)
    qed
  next
    assume n: "nm = ''get_transaction''"
    from assms(2) have m: "arg_transaction_id args = None"
      unfolding n by (simp add: required_present_simps)
    show ?thesis
    proof (intro exI [of _ "''transaction_id''"] conjI)
      show "''transaction_id'' \<in> set (required_of nm)"
        unfolding n by (simp add: required_of_simps)
      show "\<not> present args ''transaction_id''" by (simp add: present_simps m)
      show "dispatch e w nm args = (Raise (Exn KeyError (quoted ''transaction_id'')), w)"
        unfolding n dispatch_get_transaction by (rule subscript_missing) (rule m)
    qed
  next
    assume n: "nm = ''graphql_query''"
    from assms(2) have m: "arg_query args = None"
      unfolding n by (simp add: required_present_simps)
    show ?thesis
    proof (intro exI [of _ "''query''"] conjI)
      show "''query'' \<in> set (required_of nm)" unfolding n by (simp add: required_of_simps)
      show "\<not> present args ''query''" by (simp add: present_simps m)
      show "dispatch e w nm args = (Raise (Exn KeyError (quoted ''query'')), w)"
        unfolding n dispatch_graphql_query by (rule subscript_missing) (rule m)
    qed
  next
    assume n: "nm = ''view_config''"
    from assms(2) have m: "arg_component args = None"
      unfolding n by (simp add: required_present_view_config)
    show ?thesis
    proof (intro exI [of _ "''component''"] conjI)
      show "''component'' \<in> set (required_of nm)"
        unfolding n by (simp add: required_of_simps)
      show "\<not> present args ''component''" by (simp add: present_simps m)
      show "dispatch e w nm args = (Raise (Exn KeyError (quoted ''component'')), w)"
        unfolding n dispatch_view_config by (rule subscript_missing) (rule m)
    qed
  next
    assume n: "nm = ''commit_transaction''"
    show ?thesis
    proof (cases "arg_transaction_id args = None")
      case True
      show ?thesis
      proof (intro exI [of _ "''transaction_id''"] conjI)
        show "''transaction_id'' \<in> set (required_of nm)"
          unfolding n by (simp add: required_of_simps)
        show "\<not> present args ''transaction_id''" by (simp add: present_simps True)
        show "dispatch e w nm args = (Raise (Exn KeyError (quoted ''transaction_id'')), w)"
          unfolding n dispatch_commit_transaction by (rule subscript_missing) (rule True)
      qed
    next
      case False
      with assms(2) have m: "arg_value args = None"
        unfolding n by (simp add: required_present_simps)
      show ?thesis
      proof (intro exI [of _ "''value''"] conjI)
        show "''value'' \<in> set (required_of nm)" unfolding n by (simp add: required_of_simps)
        show "\<not> present args ''value''" by (simp add: present_simps m)
        show "dispatch e w nm args = (Raise (Exn KeyError (quoted ''value'')), w)"
          unfolding n dispatch_commit_transaction
          by (simp add: subscript_present [OF False] subscript_missing [OF m])
      qed
    qed
  next
    assume n: "nm = ''update_config''"
    show ?thesis
    proof (cases "arg_key args = None")
      case True
      show ?thesis
      proof (intro exI [of _ "''key''"] conjI)
        show "''key'' \<in> set (required_of nm)" unfolding n by (simp add: required_of_simps)
        show "\<not> present args ''key''" by (simp add: present_simps True)
        show "dispatch e w nm args = (Raise (Exn KeyError (quoted ''key'')), w)"
          unfolding n dispatch_update_config by (rule subscript_missing) (rule True)
      qed
    next
      case False
      with assms(2) have m: "arg_value args = None"
        unfolding n by (simp add: required_present_update_config)
      show ?thesis
      proof (intro exI [of _ "''value''"] conjI)
        show "''value'' \<in> set (required_of nm)" unfolding n by (simp add: required_of_simps)
        show "\<not> present args ''value''" by (simp add: present_simps m)
        show "dispatch e w nm args = (Raise (Exn KeyError (quoted ''value'')), w)"
          unfolding n dispatch_update_config
          by (simp add: subscript_present [OF False] subscript_missing [OF m])
      qed
    qed
  qed
qed

section \<open>The dispatcher on names outside the catalog\<close>

text \<open>Claim C8. For every tool name that is not in the catalog and every argument
  dictionary, \<^verbatim>\<open>call_tool\<close> returns the one text content "Unknown tool: <name>"; it
  does not raise, does not block, and leaves the state and the outside world as they
  were.\<close>

theorem unknown_tool_result:
  "nm \<notin> set catalog \<Longrightarrow>
   call_tool e w nm args = (Return [TextContent ''text'' (''Unknown tool: '' @ nm)], w)"
  by (simp add: catalog_def list_tools_def call_tool_def dispatch_def)

theorem unknown_tool_result_witness:
  "''bogus'' \<notin> set catalog \<and>
   call_tool example_env fresh_world ''bogus'' no_args
     = (Return [TextContent ''text'' ''Unknown tool: bogus''], fresh_world)"
  using unknown_tool_result [of "''bogus''" example_env fresh_world no_args]
  by (simp add: catalog_def list_tools_def)

section \<open>The installation stub\<close>

text \<open>Claim C10. Whatever \<^verbatim>\<open>use_sudo\<close> is and whatever the state is,
  \<^verbatim>\<open>_install_dependencies\<close> returns the empty string and changes nothing: the flag,
  the file system and the trace of operations are those it was given, so no process is
  spawned. The same holds through \<^verbatim>\<open>call_tool\<close>, for every argument dictionary.\<close>

theorem install_dependencies_stub:
  "install_dependencies e w use_sudo = (Return [], w) \<and>
   call_tool e w ''install_dependencies'' args = (Return [TextContent ''text'' []], w)"
  by (simp add: install_dependencies_def call_tool_def dispatch_def)

text \<open>Claim C2. While \<^verbatim>\<open>self.initialized\<close> is false, each of the five gated handlers
  returns the fixed message "Environment not initialized. Please run
  'initialize_environment' first" for every argument, and returns the state it was
  given: the flag, the file system and the trace of operations are unchanged, so nothing
  is created, removed, spawned, read or written, whatever files the file system holds.
  The same holds through \<^verbatim>\<open>call_tool\<close> for every call of one of the five tools that
  carries the arguments its schema requires.\<close>

theorem gated_tools_blocked:
  assumes "\<not> initialized w"
  shows
    "not_initialized_msg
       = ''Environment not initialized. Please run 'initialize_environment' first''
     \<and> run_playbook e w tags limit check = (Return not_initialized_msg, w)
     \<and> quick_deploy e w = (Return not_initialized_msg, w)
     \<and> docker_build e w tag = (Return not_initialized_msg, w)
     \<and> view_config e w component = (Return not_initialized_msg, w)
     \<and> update_config e w k val = (Return not_initialized_msg, w)
     \<and> ((nm = ''run_playbook'' \<or> nm = ''quick_deploy'' \<or> nm = ''docker_build''
            \<or> nm = ''view_config'' \<or> nm = ''update_config'')
          \<and> required_present nm args
          \<longrightarrow> call_tool e w nm args
                = (Return [TextContent ''text'' not_initialized_msg], w))"
proof -
  have c: "call_tool e w nm args = (Return [TextContent ''text'' not_initialized_msg], w)"
    if "nm = ''run_playbook'' \<or> nm = ''quick_deploy'' \<or> nm = ''docker_build''
          \<or> nm = ''view_config'' \<or> nm = ''update_config''"
      and "required_present nm args"
    unfolding call_tool_def gated_dispatch_uninitialized [OF assms that] by simp
  show ?thesis
  proof (intro conjI impI)
    show "not_initialized_msg
       = ''Environment not initialized. Please run 'initialize_environment' first''"
      by (fact not_initialized_msg_def)
    show "run_playbook e w tags limit check = (Return not_initialized_msg, w)"
      by (fact run_playbook_uninitialized [OF assms])
    show "quick_deploy e w = (Return not_initialized_msg, w)"
      by (fact quick_deploy_uninitialized [OF assms])
    show "docker_build e w tag = (Return not_initialized_msg, w)"
      by (fact docker_build_uninitialized [OF assms])
    show "view_config e w component = (Return not_initialized_msg, w)"
      by (fact view_config_uninitialized [OF assms])
    show "update_config e w k val = (Return not_initialized_msg, w)"
      by (fact update_config_uninitialized [OF assms])
    show "call_tool e w nm args = (Return [TextContent ''text'' not_initialized_msg], w)"
      if "(nm = ''run_playbook'' \<or> nm = ''quick_deploy'' \<or> nm = ''docker_build''
            \<or> nm = ''view_config'' \<or> nm = ''update_config'')
          \<and> required_present nm args"
      using c that by (elim conjE)
  qed
qed

theorem gated_tools_blocked_witness:
  "\<not> initialized fresh_world
   \<and> exists_path (fs fresh_world) (config_file example_env)
   \<and> required_present ''view_config'' (no_args\<lparr>arg_component := Some ''nginx''\<rparr>)
   \<and> view_config example_env fresh_world ''nginx'' = (Return not_initialized_msg, fresh_world)
   \<and> call_tool example_env fresh_world ''view_config''
         (no_args\<lparr>arg_component := Some ''nginx''\<rparr>)
       = (Return [TextContent ''text'' not_initialized_msg], fresh_world)"
proof -
  have u: "\<not> initialized fresh_world"
    by (simp add: fresh_world_def)
  have r: "required_present ''view_config'' (no_args\<lparr>arg_component := Some ''nginx''\<rparr>)"
    by (simp add: required_present_view_config)
  have x: "exists_path (fs fresh_world) (config_file example_env)"
    by (simp add: fresh_world_def example_fs_def example_repo_def exists_path_def
        config_file_def ANSIBLE_DIR_def WORK_DIR_def example_env_def)
  have "view_config example_env fresh_world ''nginx'' = (Return not_initialized_msg, fresh_world)
     \<and> call_tool example_env fresh_world ''view_config''
         (no_args\<lparr>arg_component := Some ''nginx''\<rparr>)
       = (Return [TextContent ''text'' not_initialized_msg], fresh_world)"
    using r
      gated_tools_blocked [OF u, of example_env _ _ _ _ "''nginx''" _ _ "''view_config''"
        "no_args\<lparr>arg_component := Some ''nginx''\<rparr>"]
    by simp
  with u r x show ?thesis by (intro conjI) simp_all
qed

text \<open>Claim C7. When the deployment directory exists, \<^verbatim>\<open>_initialize_environment\<close>
  with \<^verbatim>\<open>force=False\<close> returns "Repository already exists at <directory>" followed
  by the report of the four key files, and sets the flag. The file system it leaves is
  the one it found, and the only operation it adds to the trace is the call of
  \<^verbatim>\<open>mkdir\<close> on the working directory, which already exists: nothing is removed and no
  process is spawned. A second call returns the same text and again leaves the file
  system and the flag as they are.\<close>

theorem initialize_without_force_idempotent:
  assumes "exists_path (fs w) (ANSIBLE_DIR e)"
  shows
    "initialize_environment e w False
       = (Return (join [nl]
            ((''Repository already exists at '' @ path_str (ANSIBLE_DIR e))
             # key_file_report e (fs w))),
          w\<lparr>initialized := True, trace := trace w @ [Mkdir (WORK_DIR e)]\<rparr>)
     \<and> fst (initialize_environment e (snd (initialize_environment e w False)) False)
         = fst (initialize_environment e w False)
     \<and> fs (snd (initialize_environment e (snd (initialize_environment e w False)) False))
         = fs w
     \<and> initialized (snd (initialize_environment e (snd (initialize_environment e w False)) False))
     \<and> trace (snd (initialize_environment e (snd (initialize_environment e w False)) False))
         = trace w @ [Mkdir (WORK_DIR e), Mkdir (WORK_DIR e)]"
proof -
  let ?w1 = "(emit (Mkdir (WORK_DIR e)) w)\<lparr>initialized := True\<rparr>"
  have first: "initialize_environment e w False
     = (Return (join [nl]
          ((''Repository already exists at '' @ path_str (ANSIBLE_DIR e))
           # key_file_report e (fs w))), ?w1)"
    by (rule initialize_existing [OF assms])
  have fs1: "fs ?w1 = fs w"
    by (simp add: emit_def)
  have ex1: "exists_path (fs ?w1) (ANSIBLE_DIR e)"
    using assms by (simp only: fs1)
  have second: "initialize_environment e ?w1 False
     = (Return (join [nl]
          ((''Repository already exists at '' @ path_str (ANSIBLE_DIR e))
           # key_file_report e (fs w))),
        (emit (Mkdir (WORK_DIR e)) ?w1)\<lparr>initialized := True\<rparr>)"
    using initialize_existing [OF ex1] by (simp only: fs1)
  show ?thesis
    unfolding first snd_conv fst_conv second
    by (simp add: emit_def)
qed

theorem initialize_without_force_idempotent_witness:
  "exists_path (fs fresh_world) (ANSIBLE_DIR example_env)
   \<and> fst (initialize_environment example_env fresh_world False)
       = Return (join [nl]
           [''Repository already exists at /home/op/.resilientdb-mcp/incubator-resilientdb-ansible'',
            ''Playbook found: /home/op/.resilientdb-mcp/incubator-resilientdb-ansible/site.yml'',
            ''Inventory found: /home/op/.resilientdb-mcp/incubator-resilientdb-ansible/inventories/production/hosts'',
            ''Dockerfile missing: /home/op/.resilientdb-mcp/incubator-resilientdb-ansible/dockerfile'',
            ''Complete startup script missing: /home/op/.resilientdb-mcp/incubator-resilientdb-ansible/complete-startup.sh''])
   \<and> fs (snd (initialize_environment example_env fresh_world False)) = example_fs
   \<and> initialized (snd (initialize_environment example_env fresh_world False))"
proof -
  have x: "exists_path (fs fresh_world) (ANSIBLE_DIR example_env)"
    by (simp add: fresh_world_def example_fs_def exists_path_def ANSIBLE_DIR_def WORK_DIR_def
        example_env_def)
  have k: "key_file_report example_env (fs fresh_world)
     = [''Playbook found: /home/op/.resilientdb-mcp/incubator-resilientdb-ansible/site.yml'',
        ''Inventory found: /home/op/.resilientdb-mcp/incubator-resilientdb-ansible/inventories/production/hosts'',
        ''Dockerfile missing: /home/op/.resilientdb-mcp/incubator-resilientdb-ansible/dockerfile'',
        ''Complete startup script missing: /home/op/.resilientdb-mcp/incubator-resilientdb-ansible/complete-startup.sh'']"
    by (simp add: key_file_report_def key_files_def fresh_world_def example_fs_def
        example_repo_def exists_path_def PLAYBOOK_FILE_def INVENTORY_FILE_def ANSIBLE_DIR_def
        WORK_DIR_def example_env_def path_str_def)
  have p: "path_str (ANSIBLE_DIR example_env)
     = ''/home/op/.resilientdb-mcp/incubator-resilientdb-ansible''"
    by (simp add: path_str_def ANSIBLE_DIR_def WORK_DIR_def example_env_def)
  have f: "fs fresh_world = example_fs"
    by (simp add: fresh_world_def)
  from initialize_without_force_idempotent [OF x]
  have "initialize_environment example_env fresh_world False
       = (Return (join [nl]
            ((''Repository already exists at '' @ path_str (ANSIBLE_DIR example_env))
             # key_file_report example_env (fs fresh_world))),
          fresh_world\<lparr>initialized := True,
            trace := trace fresh_world @ [Mkdir (WORK_DIR example_env)]\<rparr>)"
    by (rule conjunct1)
  then show ?thesis
    using x unfolding k p by (simp add: f)
qed

text \<open>Claim C3, at an input where the code departs from it. The server has been
  initialised before (the flag is set), the deployment directory exists, and
  \<^verbatim>\<open>git clone\<close> exits with code 128. \<^verbatim>\<open>_initialize_environment\<close> with
  \<^verbatim>\<open>force=True\<close> removes the directory, starts git once and returns the reason, as
  the claim says; but the flag is still set afterwards, although the directory is gone:
  no statement of the source ever clears it.\<close>

theorem force_reclone_failure_keeps_flag:
  "initialized example_world
   \<and> lookup (fs example_world) (ANSIBLE_DIR example_env) = Some example_repo
   \<and> initialize_environment example_env example_world True
       = (Return (join [nl] [''Removed existing repository'',
                             ''Failed to clone repository: fatal: unable to access'']),
          example_world\<lparr>fs := remove example_fs (ANSIBLE_DIR example_env),
            trace := [Mkdir (WORK_DIR example_env), Rmtree (ANSIBLE_DIR example_env),
                      Spawn (clone_command example_env)]\<rparr>)
   \<and> initialized (snd (initialize_environment example_env example_world True))
   \<and> \<not> exists_path (fs (snd (initialize_environment example_env example_world True)))
         (ANSIBLE_DIR example_env)"
proof -
  have i: "initialized example_world"
    by (simp add: example_world_def)
  have d: "lookup (fs example_world) (ANSIBLE_DIR example_env) = Some example_repo"
    by (simp add: example_world_def example_fs_def ANSIBLE_DIR_def WORK_DIR_def example_env_def)
  have d': "lookup (fs example_world) (ANSIBLE_DIR example_env)
      = Some (Dir [(''site.yml'', File ''- hosts: all''),
          (''inventories'',
           Dir [(''production'',
                 Dir [(''hosts'', File ''localhost''),
                      (''group_vars'', Dir [(''all.yml'', File ''crow_port: 18000'')])])])])"
    using d by (simp only: example_repo_def)
  have p: "proc example_env (clone_command example_env)
             (remove (fs example_world) (ANSIBLE_DIR example_env))
      = (Exited 2 128 [] ''fatal: unable to access'',
         remove example_fs (ANSIBLE_DIR example_env))"
    by (simp add: example_env_def example_proc_def clone_command_def example_world_def)
  have r: "initialize_environment example_env example_world True
       = (Return (join [nl] [''Removed existing repository'',
                             ''Failed to clone repository: fatal: unable to access'']),
          example_world\<lparr>fs := remove example_fs (ANSIBLE_DIR example_env),
            trace := [Mkdir (WORK_DIR example_env), Rmtree (ANSIBLE_DIR example_env),
                      Spawn (clone_command example_env)]\<rparr>)"
    using force_reclone_nonzero [OF d' p] by (simp add: example_world_def)
  have g: "\<not> exists_path (remove example_fs (ANSIBLE_DIR example_env)) (ANSIBLE_DIR example_env)"
    by (simp add: example_fs_def ANSIBLE_DIR_def WORK_DIR_def example_env_def exists_path_def)
  show ?thesis
    unfolding r snd_conv using i d g by (simp add: example_world_def)
qed

text \<open>Claim C5, at an input where the code departs from it. The value is the one
  character U+00B2, superscript two. \<^verbatim>\<open>str.isdigit\<close> accepts it, so the source calls
  \<^verbatim>\<open>int\<close> on it, which raises \<open>ValueError\<close>; the handler's \<^verbatim>\<open>except\<close> turns that
  into an error text. Nothing is stored: the configuration file has been read and not
  written, and the value is kept neither as an integer nor as the original string.\<close>

theorem update_config_superscript_digit:
  "initialized example_world
   \<and> isdigit [CHR 0xB2]
   \<and> update_config example_env example_world ''crow_port'' [CHR 0xB2]
       = (Return (''Error updating configuration: invalid literal for int() with base 10: ''
                  @ [sq, CHR 0xB2, sq]),
          example_world\<lparr>trace := [ReadFile (config_file example_env)]\<rparr>)
   \<and> fs (snd (update_config example_env example_world ''crow_port'' [CHR 0xB2])) = example_fs"
proof -
  have i: "initialized example_world"
    by (simp add: example_world_def)
  have g: "isdigit [CHR 0xB2]"
    by (simp add: isdigit_def isdigit_char_def)
  have c: "convert_value [CHR 0xB2]
      = Inl (Exn ValueError (''invalid literal for int() with base 10: '' @ [sq, CHR 0xB2, sq]))"
    by (simp add: convert_value_def g py_int_def isdecimal_char_def quoted_def)
  have l: "load_config example_env example_world
      = (Return (PDict [(''crow_port'', PInt 18000), (''components'', PList []),
                        (''nginx_port'', PInt 80)]),
         example_world\<lparr>trace := [ReadFile (config_file example_env)]\<rparr>)"
    by (simp add: load_config_def read_file_def config_file_def ANSIBLE_DIR_def WORK_DIR_def
        example_env_def example_world_def example_fs_def example_repo_def example_load_def
        emit_def)
  have u: "update_config example_env example_world ''crow_port'' [CHR 0xB2]
       = (Return (''Error updating configuration: invalid literal for int() with base 10: ''
                  @ [sq, CHR 0xB2, sq]),
          example_world\<lparr>trace := [ReadFile (config_file example_env)]\<rparr>)"
    by (simp add: update_config_def i l try_catch_def c update_config_handler_def)
  show ?thesis
    unfolding u snd_conv using i g by (simp add: example_world_def)
qed

text \<open>Claim C9, as the code has it. Nothing is collected before the first line that
  contains "PLAY RECAP". From that line on, every line that contains the marker (the
  first one and any later one) puts the header line into the summary instead of itself,
  and every other line that is not blank is collected as it is. When the playbook exits
  with code 0 the handler returns "Playbook executed successfully!", a newline, and the
  last ten entries of that summary, header entries included, joined by newlines.\<close>

theorem recap_extraction:
  "recap_summary out
     = (case dropWhile (\<lambda>l. \<not> sublist ''PLAY RECAP'' l) (split_nl out) of
          [] \<Rightarrow> []
        | m # rest \<Rightarrow>
            summary_header
            # map (\<lambda>l. if sublist ''PLAY RECAP'' l then summary_header else l)
                (filter (\<lambda>l. sublist ''PLAY RECAP'' l \<or> list_ex (\<lambda>c. \<not> isspace_char c) l)
                   rest))
   \<and> summary_header = nl # ''=== DEPLOYMENT SUMMARY ===''
   \<and> (initialized w \<and> exists_path (fs w) (PLAYBOOK_FILE e)
        \<and> proc e (playbook_command e tags limit check) (fs w)
            = (Exited secs 0 out err, root)
        \<longrightarrow> fst (run_playbook e w tags limit check)
             = Return (''Playbook executed successfully!'' @ [nl]
                       @ join [nl] (last_n 10 (recap_summary out))))"
proof (intro conjI impI)
  show "recap_summary out
     = (case dropWhile (\<lambda>l. \<not> sublist ''PLAY RECAP'' l) (split_nl out) of
          [] \<Rightarrow> []
        | m # rest \<Rightarrow>
            summary_header
            # map (\<lambda>l. if sublist ''PLAY RECAP'' l then summary_header else l)
                (filter (\<lambda>l. sublist ''PLAY RECAP'' l \<or> list_ex (\<lambda>c. \<not> isspace_char c) l)
                   rest))"
    using recap_summary_eq [of out] by (simp only: strip_nonblank)
  show "summary_header = nl # ''=== DEPLOYMENT SUMMARY ===''"
    by (fact summary_header_def)
  show "fst (run_playbook e w tags limit check)
      = Return (''Playbook executed successfully!'' @ [nl]
                @ join [nl] (last_n 10 (recap_summary out)))"
    if "initialized w \<and> exists_path (fs w) (PLAYBOOK_FILE e)
        \<and> proc e (playbook_command e tags limit check) (fs w)
            = (Exited secs 0 out err, root)"
  proof -
    from that have "run_playbook e w tags limit check
       = (Return (''Playbook executed successfully!'' @ [nl]
                  @ join [nl] (last_n 10 (recap_summary out))),
          w\<lparr>fs := root, trace := trace w @ [Spawn (playbook_command e tags limit check)]\<rparr>)"
      by (intro run_playbook_exit_zero) simp_all
    then show ?thesis by (simp only: fst_conv)
  qed
qed

theorem recap_extraction_witness:
  "initialized example_world
   \<and> exists_path (fs example_world) (PLAYBOOK_FILE example_env)
   \<and> proc example_env (playbook_command example_env ''all'' ''all'' False) (fs example_world)
       = (Exited 9 0
            (''PLAY RECAP ***'' @ [nl] @ ''host1 : ok=2'' @ [nl] @ [nl] @ ''host2 : ok=3'' @ [nl])
            [], example_fs)
   \<and> fst (run_playbook example_env example_world ''all'' ''all'' False)
       = Return (''Playbook executed successfully!'' @ [nl]
                 @ join [nl] [summary_header, ''host1 : ok=2'', ''host2 : ok=3''])"
proof -
  let ?out = "''PLAY RECAP ***'' @ [nl] @ ''host1 : ok=2'' @ [nl] @ [nl] @ ''host2 : ok=3'' @ [nl]"
  have i: "initialized example_world"
    by (simp add: example_world_def)
  have x: "exists_path (fs example_world) (PLAYBOOK_FILE example_env)"
    by (simp add: example_world_def example_fs_def example_repo_def exists_path_def
        PLAYBOOK_FILE_def ANSIBLE_DIR_def WORK_DIR_def example_env_def)
  have p: "proc example_env (playbook_command example_env ''all'' ''all'' False)
             (fs example_world) = (Exited 9 0 ?out [], example_fs)"
    by (simp add: example_env_def example_proc_def playbook_command_def example_world_def)
  have s: "split_nl ?out = [''PLAY RECAP ***'', ''host1 : ok=2'', [], ''host2 : ok=3'', []]"
    by simp
  have r: "recap_summary ?out = [summary_header, ''host1 : ok=2'', ''host2 : ok=3'']"
    unfolding recap_summary_def s
    by (simp add: sublist_code strip_nonblank isspace_char_def)
  have "fst (run_playbook example_env example_world ''all'' ''all'' False)
       = Return (''Playbook executed successfully!'' @ [nl]
                 @ join [nl] (last_n 10 (recap_summary ?out)))"
    using recap_extraction [of ?out example_world example_env "''all''" "''all''" False 9
        "[]" example_fs] i x p
    by blast
  then have "fst (run_playbook example_env example_world ''all'' ''all'' False)
       = Return (''Playbook executed successfully!'' @ [nl]
                 @ join [nl] [summary_header, ''host1 : ok=2'', ''host2 : ok=3''])"
    unfolding r by (simp add: last_n_def)
  with i x p show ?thesis by (intro conjI)
qed

text \<open>Claim C9 as it is worded fails when a later line contains the marker too: that
  line is not blank and follows the first marker line, yet it is not collected; the
  header is collected a second time in its place.\<close>

theorem recap_second_marker_counterexample:
  "split_nl (''PLAY RECAP'' @ [nl] @ ''PLAY RECAP 2'' @ [nl] @ ''ok'')
     = [''PLAY RECAP'', ''PLAY RECAP 2'', ''ok'']
   \<and> strip ''PLAY RECAP 2'' \<noteq> []
   \<and> recap_summary (''PLAY RECAP'' @ [nl] @ ''PLAY RECAP 2'' @ [nl] @ ''ok'')
       = [summary_header, summary_header, ''ok'']
   \<and> ''PLAY RECAP 2''
       \<notin> set (recap_summary (''PLAY RECAP'' @ [nl] @ ''PLAY RECAP 2'' @ [nl] @ ''ok''))"
proof -
  have ce1: "split_nl (''PLAY RECAP'' @ [nl] @ ''PLAY RECAP 2'' @ [nl] @ ''ok'')
     = [''PLAY RECAP'', ''PLAY RECAP 2'', ''ok'']"
    by simp
  have ce2: "strip ''PLAY RECAP 2'' \<noteq> []"
    by (simp add: strip_nonblank isspace_char_def)
  have ce3: "recap_summary (''PLAY RECAP'' @ [nl] @ ''PLAY RECAP 2'' @ [nl] @ ''ok'')
     = [summary_header, summary_header, ''ok'']"
    unfolding recap_summary_def ce1
    by (simp add: sublist_code strip_nonblank isspace_char_def)
  have ce4: "''PLAY RECAP 2''
       \<notin> set (recap_summary (''PLAY RECAP'' @ [nl] @ ''PLAY RECAP 2'' @ [nl] @ ''ok''))"
    unfolding ce3 by (simp add: summary_header_def)
  from ce1 ce2 ce3 ce4 show ?thesis by (intro conjI)
qed

text \<open>Claim C6. The server is initialised, the configuration file can be read and loads
  as a mapping (a dictionary, whose keys are distinct), and the component is not "all".
  Then the mapping \<^verbatim>\<open>_view_config\<close> dumps holds exactly the entries of the document
  whose key contains the lower-cased component name in its lower-cased form, or is one of
  "components", "bazel_version" and "java_home_map"; they keep their values and their
  order, and every other key is left out. The text returned is the dump of that mapping
  after the line "Configuration for <component>:", or "No configuration found for
  component: <component>" when no key is selected.\<close>

theorem view_config_selects_keys:
  assumes "initialized w"
    and "read_file (fs w) (config_file e) = Inr txt"
    and "yaml_load e txt = Inr (PDict config)"
    and "distinct (map fst config)"
    and "component \<noteq> ''all''"
  shows
    "filtered_config component config
       = filter (\<lambda>(k, v). sublist (lower component) (lower k)
                   \<or> k \<in> set [''components'', ''bazel_version'', ''java_home_map''])
           config
     \<and> fst (view_config e w component)
         = Return (if filtered_config component config = []
                   then ''No configuration found for component: '' @ component
                   else ''Configuration for '' @ component @ '':'' @ [nl]
                        @ yaml_dump e (PDict (filtered_config component config)))"
proof
  show "filtered_config component config
       = filter (\<lambda>(k, v). sublist (lower component) (lower k)
                   \<or> k \<in> set [''components'', ''bazel_version'', ''java_home_map''])
           config"
    using filtered_config_distinct [OF assms(4), of component]
    by (simp only: always_included_def)
  show "fst (view_config e w component)
         = Return (if filtered_config component config = []
                   then ''No configuration found for component: '' @ component
                   else ''Configuration for '' @ component @ '':'' @ [nl]
                        @ yaml_dump e (PDict (filtered_config component config)))"
    unfolding view_config_component [OF assms(1,2,3,5)] by (simp only: fst_conv)
qed

theorem view_config_selects_keys_witness:
  "initialized example_world
   \<and> read_file (fs example_world) (config_file example_env) = Inr ''crow_port: 18000''
   \<and> yaml_load example_env ''crow_port: 18000''
       = Inr (PDict [(''crow_port'', PInt 18000), (''components'', PList []),
                     (''nginx_port'', PInt 80)])
   \<and> filtered_config ''NGINX''
         [(''crow_port'', PInt 18000), (''components'', PList []), (''nginx_port'', PInt 80)]
       = [(''components'', PList []), (''nginx_port'', PInt 80)]
   \<and> fst (view_config example_env example_world ''NGINX'')
       = Return (''Configuration for NGINX:'' @ [nl] @ ''components: ?'' @ [nl]
                 @ ''nginx_port: ?'' @ [nl])"
proof -
  let ?config = "[(''crow_port'', PInt 18000), (''components'', PList []),
                  (''nginx_port'', PInt 80)]"
  have i: "initialized example_world"
    by (simp add: example_world_def)
  have r: "read_file (fs example_world) (config_file example_env) = Inr ''crow_port: 18000''"
    by (simp add: read_file_def config_file_def ANSIBLE_DIR_def WORK_DIR_def example_env_def
        example_world_def example_fs_def example_repo_def)
  have y: "yaml_load example_env ''crow_port: 18000'' = Inr (PDict ?config)"
    by (simp add: example_env_def example_load_def)
  have d: "distinct (map fst ?config)"
    by simp
  have n: "''NGINX'' \<noteq> ''all''"
    by simp
  note t = view_config_selects_keys [OF i r y d n]
  have f: "filtered_config ''NGINX'' ?config
      = [(''components'', PList []), (''nginx_port'', PInt 80)]"
    unfolding conjunct1 [OF t]
    by (simp add: lower_def lower_char_def sublist_code char_of_eq_iff)
  have v: "fst (view_config example_env example_world ''NGINX'')
       = Return (''Configuration for NGINX:'' @ [nl] @ ''components: ?'' @ [nl]
                 @ ''nginx_port: ?'' @ [nl])"
    unfolding conjunct2 [OF t] f
    by (simp add: example_env_def example_dump_def)
  from i r y f v show ?thesis by (intro conjI)
qed

section \<open>Timeouts of the external processes\<close>

text \<open>Claim C4, as the code has it. Whatever the tool and its arguments, a call of
  \<^verbatim>\<open>call_tool\<close> only adds to the trace, and every process it starts is given the
  timeout of its tool: 300 seconds for \<^verbatim>\<open>quick_deploy\<close>, 5 seconds for the version
  probes of \<^verbatim>\<open>check_dependencies\<close>, and none for every other tool. The two tools with
  a timeout never block. A process started without a timeout that never exits blocks
  \<^verbatim>\<open>subprocess.run\<close>, and so its caller, for ever; one started with a timeout does
  not.\<close>

theorem process_timeouts:
  "adds [tool_timeout nm] w (snd (call_tool e w nm args))
   \<and> tool_timeout nm
       = (if nm = ''quick_deploy'' then Some 300
          else if nm = ''check_dependencies'' then Some 5 else None)
   \<and> (nm = ''quick_deploy'' \<or> nm = ''check_dependencies''
        \<longrightarrow> fst (call_tool e w nm args) \<noteq> Block)
   \<and> (timeout c = None \<and> fst (proc e c (fs w)) = Hangs
        \<longrightarrow> fst (subprocess_run e c w) = Block)
   \<and> (timeout c \<noteq> None \<longrightarrow> fst (subprocess_run e c w) \<noteq> Block)"
proof (intro conjI impI)
  show "adds [tool_timeout nm] w (snd (call_tool e w nm args))"
    unfolding call_tool_snd by (rule dispatch_adds)
  show "tool_timeout nm
       = (if nm = ''quick_deploy'' then Some 300
          else if nm = ''check_dependencies'' then Some 5 else None)"
    by (fact tool_timeout_def)
  show "fst (call_tool e w nm args) \<noteq> Block"
    if "nm = ''quick_deploy'' \<or> nm = ''check_dependencies''"
    unfolding call_tool_block using that by (rule dispatch_timeout_tools_return)
  show "fst (subprocess_run e c w) = Block"
    if "timeout c = None \<and> fst (proc e c (fs w)) = Hangs"
    using that by (intro subprocess_run_hangs) simp_all
  show "fst (subprocess_run e c w) \<noteq> Block" if "timeout c \<noteq> None"
    using that by (rule subprocess_run_timeout_returns)
qed

theorem process_timeouts_witness:
  "timeout (docker_run_command ''resilientdb-ansible:latest'' True) = None
   \<and> fst (proc example_env (docker_run_command ''resilientdb-ansible:latest'' True)
            (fs example_world)) = Hangs
   \<and> fst (subprocess_run example_env (docker_run_command ''resilientdb-ansible:latest'' True)
            example_world) = Block
   \<and> timeout (quick_deploy_command example_env) \<noteq> None
   \<and> fst (subprocess_run example_env (quick_deploy_command example_env) example_world) \<noteq> Block
   \<and> fst (call_tool example_env example_world ''quick_deploy'' no_args) \<noteq> Block
   \<and> adds [Some 300] example_world
        (snd (call_tool example_env example_world ''quick_deploy'' no_args))"
proof -
  let ?c = "docker_run_command ''resilientdb-ansible:latest'' True"
  have t: "timeout ?c = None"
    by (simp add: docker_run_command_def)
  have h: "fst (proc example_env ?c (fs example_world)) = Hangs"
    by (simp add: example_env_def example_proc_def docker_run_command_def)
  have q: "timeout (quick_deploy_command example_env) \<noteq> None"
    by (simp add: quick_deploy_command_def)
  note p = process_timeouts [of "''quick_deploy''" example_world example_env no_args]
  have b: "fst (subprocess_run example_env ?c example_world) = Block"
    using process_timeouts [of _ example_world example_env _ ?c] t h by blast
  have r: "fst (subprocess_run example_env (quick_deploy_command example_env) example_world)
      \<noteq> Block"
    using p [of "quick_deploy_command example_env"] q by blast
  have n: "fst (call_tool example_env example_world ''quick_deploy'' no_args) \<noteq> Block"
    using p by blast
  have a: "adds [Some 300] example_world
        (snd (call_tool example_env example_world ''quick_deploy'' no_args))"
    using p by (simp add: tool_timeout_simps)
  from t h b q r n a show ?thesis by (intro conjI)
qed

text \<open>Claim C4 as it is worded fails for \<^verbatim>\<open>check_dependencies\<close>: where \<^verbatim>\<open>git\<close> is on the
  search path, the one process the tool starts is \<^verbatim>\<open>git --version\<close> with a timeout
  of 5 seconds, and the tool is not \<^verbatim>\<open>quick_deploy\<close>.\<close>

theorem check_dependencies_timeout_counterexample:
  "performed example_world
     (snd (call_tool example_env example_world ''check_dependencies'' no_args))
     = [Spawn \<lparr>argv = [''git'', ''--version''], cwd = None, timeout = Some 5\<rparr>]
   \<and> timeouts_of (performed example_world
        (snd (call_tool example_env example_world ''check_dependencies'' no_args)))
     = [Some 5]"
proof -
  have w: "which example_env = (\<lambda>cmd. cmd = ''git'')"
    by (simp add: example_env_def)
  have p: "proc example_env (version_command ''git'') root
      = (Exited 1 0 ''git version 2.43.0'' [], root)" for root
    by (simp add: example_env_def example_proc_def version_command_def)
  have v: "version_command ''git'' = \<lparr>argv = [''git'', ''--version''], cwd = None, timeout = Some 5\<rparr>"
    by (simp add: version_command_def)
  have s: "subprocess_run example_env (version_command ''git'') example_world
      = (Return \<lparr>returncode = 0, stdout = ''git version 2.43.0'', stderr = []\<rparr>,
         emit (Spawn (version_command ''git'')) (example_world\<lparr>fs := fs example_world\<rparr>))"
    by (simp add: subprocess_run_def p version_command_timeout)
  have tw: "trace example_world = []"
    by (simp add: example_world_def)
  have "trace (snd (check_deps_loop example_env deps [] [] example_world))
      = [Spawn (version_command ''git'')]"
    by (simp add: deps_def w s emit_def tw)
  then have "trace (snd (check_dependencies example_env example_world))
      = [Spawn (version_command ''git'')]"
    unfolding check_dependencies_def
    by (cases "check_deps_loop example_env deps [] [] example_world")
       (auto split: outcome.splits prod.splits)
  then have "performed example_world
     (snd (call_tool example_env example_world ''check_dependencies'' no_args))
     = [Spawn (version_command ''git'')]"
    unfolding call_tool_snd dispatch_check_dependencies performed_def
    by (simp add: tw)
  then show ?thesis
    by (simp add: v)
qed

end
